theory Spec2Isabelle
  imports Complex_Main "HOL-Library.Word"
begin

section \<open>The netatmo exporter's collector (internal/collector/collector.go)\<close>

text \<open>
  The collector caches the device collection last fetched from the Netatmo API, refreshes
  it in the background when a scrape finds it older than the refresh interval, and turns
  the cached readings into Prometheus metrics. This theory embeds
  \<^verbatim>\<open>NetatmoCollector\<close> with \<^verbatim>\<open>New\<close>, \<^verbatim>\<open>Collect\<close>,
  \<^verbatim>\<open>RefreshData\<close>, \<^verbatim>\<open>collectData\<close>, \<^verbatim>\<open>sendMetric\<close> and
  \<^verbatim>\<open>convertTime\<close>, and proves the properties the specification states about them.
\<close>

subsection \<open>Go's time package: instants and durations\<close>

text \<open>
  A \<^verbatim>\<open>time.Time\<close> is modelled by the instant it denotes: the number of nanoseconds
  since the zero value of the type (1 January of year 1, 00:00:00 UTC). The location and the
  monotonic reading are not modelled, and instants are unbounded integers.
  A \<^verbatim>\<open>time.Duration\<close> is an \<^verbatim>\<open>int64\<close> count of nanoseconds, read with \<open>sint\<close>;
  comparisons of durations are signed.
\<close>

type_synonym Time = int
type_synonym Duration = "64 word"

definition minDuration :: int where
  "minDuration = - (2 ^ 63)"

definition maxDuration :: int where
  "maxDuration = 2 ^ 63 - 1"

definition unixToInternal :: int where
  \<comment> \<open>seconds from the zero instant to 1 January 1970\<close>
  "unixToInternal = (1969 * 365 + 1969 div 4 - 1969 div 100 + 1969 div 400) * 86400"

definition IsZero :: "Time \<Rightarrow> bool" where
  "IsZero t = (t = 0)"

definition time_Unix :: "int \<Rightarrow> int \<Rightarrow> Time" where
  \<comment> \<open>\<^verbatim>\<open>time.Unix(sec, nsec)\<close>\<close>
  "time_Unix sec nsec = (sec + unixToInternal) * 10 ^ 9 + nsec"

definition Unix :: "Time \<Rightarrow> int" where
  \<comment> \<open>\<^verbatim>\<open>t.Unix()\<close>: whole seconds since 1 January 1970\<close>
  "Unix t = t div 10 ^ 9 - unixToInternal"

definition UTC :: "Time \<Rightarrow> Time" where
  \<comment> \<open>\<^verbatim>\<open>t.UTC()\<close> changes the location only\<close>
  "UTC t = t"

definition Sub :: "Time \<Rightarrow> Time \<Rightarrow> Duration" where
  \<comment> \<open>\<^verbatim>\<open>t.Sub(u)\<close>: the duration \<open>t - u\<close>, or the minimum or maximum duration
      when the difference does not fit\<close>
  "Sub t u =
     (let d = t - u
      in if d < minDuration then word_of_int minDuration
         else if maxDuration < d then word_of_int maxDuration
         else word_of_int d)"

subsection \<open>Values, descriptors and metrics of the Prometheus client\<close>

text \<open>
  A \<^verbatim>\<open>float64\<close> is kept as the conversion that produced it, so that no rounding is
  assumed: \<open>float64_of_int n\<close> is \<^verbatim>\<open>float64(n)\<close> for an integer \<open>n\<close> (the literals
  \<^verbatim>\<open>1.0\<close> and \<^verbatim>\<open>0\<close> included), \<open>float64_of_num x\<close> is \<^verbatim>\<open>float64(x)\<close> for a sensor
  value, and \<open>Seconds d\<close> is \<^verbatim>\<open>d.Seconds()\<close>.
\<close>

datatype float64 = float64_of_int int | float64_of_num real | Seconds Duration

datatype ValueType = CounterValue | GaugeValue | UntypedValue

record Desc =
  fqName :: string
  helpText :: string
  variableLabels :: "string list"

definition NewDesc :: "string \<Rightarrow> string \<Rightarrow> string list \<Rightarrow> Desc" where
  \<comment> \<open>\<^verbatim>\<open>prometheus.NewDesc(fqName, help, variableLabels, nil)\<close>\<close>
  "NewDesc n h ls = \<lparr>fqName = n, helpText = h, variableLabels = ls\<rparr>"

record Metric =
  desc :: Desc
  valueType :: ValueType
  val :: float64
  labelValues :: "string list"

type_synonym error = string

definition NewConstMetric ::
  "(string \<Rightarrow> bool) \<Rightarrow> Desc \<Rightarrow> ValueType \<Rightarrow> float64 \<Rightarrow> string list \<Rightarrow> error + Metric" where
  \<comment> \<open>\<^verbatim>\<open>prometheus.NewConstMetric\<close>: an error when the number of label values is not the
      number of variable labels of the descriptor, or when a label value is not valid UTF-8.
      The UTF-8 check (\<^verbatim>\<open>utf8.ValidString\<close>) is the parameter \<open>ValidString\<close>.\<close>
  "NewConstMetric ValidString d vt v lvs =
     (if length lvs \<noteq> length (variableLabels d) then Inl ''inconsistent label cardinality''
      else if \<not> list_all ValidString lvs then Inl ''label value is not valid UTF-8''
      else Inr \<lparr>desc = d, valueType = vt, val = v, labelValues = lvs\<rparr>)"

subsection \<open>The package-level descriptors\<close>

definition prefix :: string where
  "prefix = ''netatmo_''"

definition netatmoUpDesc :: Desc where
  "netatmoUpDesc = NewDesc (prefix @ ''up'')
     ''Zero if there was an error during the last refresh try.'' []"

definition refreshIntervalDesc :: Desc where
  "refreshIntervalDesc = NewDesc (prefix @ ''refresh_interval_seconds'')
     ''Contains the configured refresh interval in seconds. This is provided as a convenience for calculations with the cache update time.'' []"

definition refreshPrefix :: string where
  "refreshPrefix = prefix @ ''last_refresh_''"

definition refreshTimestampDesc :: Desc where
  "refreshTimestampDesc = NewDesc (refreshPrefix @ ''time'')
     ''Contains the time of the last refresh try, successful or not.'' []"

definition refreshDurationDesc :: Desc where
  "refreshDurationDesc = NewDesc (refreshPrefix @ ''duration_seconds'')
     ''Contains the time it took for the last refresh to complete, even if it was unsuccessful.'' []"

definition cacheTimestampDesc :: Desc where
  "cacheTimestampDesc = NewDesc (prefix @ ''cache_updated_time'')
     ''Contains the time of the cached data.'' []"

definition varLabels :: "string list" where
  "varLabels = [''module'', ''station'']"

definition sensorPrefix :: string where
  "sensorPrefix = prefix @ ''aircare_''"

definition updatedDesc :: Desc where
  "updatedDesc = NewDesc (sensorPrefix @ ''updated'') ''Timestamp of last update'' varLabels"

definition tempDesc :: Desc where
  "tempDesc = NewDesc (sensorPrefix @ ''temperature_celsius'')
     ''Temperature measurement in celsius'' varLabels"

definition humidityDesc :: Desc where
  "humidityDesc = NewDesc (sensorPrefix @ ''humidity_percent'')
     ''Relative humidity measurement in percent'' varLabels"

definition cotwoDesc :: Desc where
  "cotwoDesc = NewDesc (sensorPrefix @ ''co2_ppm'')
     ''Carbondioxide measurement in parts per million'' varLabels"

definition noiseDesc :: Desc where
  "noiseDesc = NewDesc (sensorPrefix @ ''noise_db'') ''Noise measurement in decibels'' varLabels"

definition pressureDesc :: Desc where
  "pressureDesc = NewDesc (sensorPrefix @ ''pressure_mb'')
     ''Atmospheric pressure measurement in millibar'' varLabels"

definition windStrengthDesc :: Desc where
  "windStrengthDesc = NewDesc (sensorPrefix @ ''wind_strength_kph'')
     ''Wind strength in kilometers per hour'' varLabels"

definition windDirectionDesc :: Desc where
  "windDirectionDesc = NewDesc (sensorPrefix @ ''wind_direction_degrees'')
     ''Wind direction in degrees'' varLabels"

definition rainDesc :: Desc where
  "rainDesc = NewDesc (sensorPrefix @ ''rain_amount_mm'') ''Rain amount in millimeters'' varLabels"

definition batteryDesc :: Desc where
  "batteryDesc = NewDesc (sensorPrefix @ ''battery_percent'')
     ''Battery remaining life (10: low)'' varLabels"

definition wifiDesc :: Desc where
  "wifiDesc = NewDesc (sensorPrefix @ ''wifi_signal_strength'')
     ''Wifi signal strength (86: bad, 71: avg, 56: good)'' varLabels"

definition rfDesc :: Desc where
  "rfDesc = NewDesc (sensorPrefix @ ''rf_signal_strength'')
     ''RF signal strength (90: lowest, 60: highest)'' varLabels"

definition absolutePressureDesc :: Desc where
  "absolutePressureDesc = NewDesc (sensorPrefix @ ''absolute_pressure'') ''Absolute pressure'' varLabels"

definition lastMeasureUtcDesc :: Desc where
  "lastMeasureUtcDesc = NewDesc (sensorPrefix @ ''last_measure_utc'') ''Measurement time UTC'' varLabels"

definition healthIndexDesc :: Desc where
  "healthIndexDesc = NewDesc (sensorPrefix @ ''health_index'')
     ''Health index: 0 = Healthy,1 = Fine,2 = Fair,3 = Poor,4 = Unhealthy'' varLabels"

subsection \<open>The data of the Netatmo API client\<close>

text \<open>
  \<^verbatim>\<open>netatmo.Device\<close>, \<^verbatim>\<open>netatmo.DashboardData\<close> and \<^verbatim>\<open>netatmo.DeviceCollection\<close>
  belong to the API client library; the collector reads the fields below. A nil pointer is
  \<open>None\<close>. \<^verbatim>\<open>LastMeasure\<close> is the \<^verbatim>\<open>int64\<close> that \<^verbatim>\<open>time.Unix\<close> takes; the other
  optional values are numbers that the collector converts with \<^verbatim>\<open>float64(...)\<close>; each is
  modelled by the real number that it denotes.
\<close>

record DashboardData =
  Temperature :: "real option"
  Humidity :: "real option"
  CO2 :: "real option"
  Noise :: "real option"
  Pressure :: "real option"
  AbsolutePressure :: "real option"
  WindStrength :: "real option"
  WindAngle :: "real option"
  Rain :: "real option"
  HealthIdx :: "real option"
  LastMeasure :: "64 word option"

datatype Device = Device
  (ID: string)
  (StationName: string)
  (ModuleName: string)
  (BatteryPercent: "real option")
  (WifiStatus: "real option")
  (RFStatus: "real option")
  (DashboardData: DashboardData)
  (LinkedModules: "Device list")

record DeviceCollection =
  Devices :: "Device list"

subsection \<open>The collector and its surroundings\<close>

text \<open>
  The fields of \<^verbatim>\<open>NetatmoCollector\<close>. The clock is a function of the number of times it
  has been read so far, so that successive calls of \<^verbatim>\<open>c.clock()\<close> may differ. The read
  function is an argument of \<open>RefreshData\<close>. It is applied to the collector as it is at the
  moment of the call \<^verbatim>\<open>c.ReadFunction()\<close>, so that what it returns may depend on what can
  be observed of the collector at that moment, and it returns a pair of the device collection
  and the error, either of which may be nil. The logger and the
  metric channel are part of the \<open>world\<close>. The lock is not modelled: every function here
  runs to its end without interleaving, and the collector that a scrape sees while a refresh
  is fetching is the one that the read function is applied to.
\<close>

record NetatmoCollector =
  RefreshInterval :: Duration
  StaleThreshold :: Duration
  clock :: "nat \<Rightarrow> Time"
  lastRefresh :: Time
  lastRefreshError :: "error option"
  lastRefreshDuration :: Duration
  cacheTimestamp :: Time
  cachedData :: "DeviceCollection option"

datatype log_entry =
    Debug_Refreshing_data Duration
  | Error_during_refresh error
  | Debug_No_data_available
  | Debug_Data_is_stale string Duration Duration
  | Error_creating_metric Desc error

record world =
  ticks :: nat
  mChan :: "Metric list"
  logged :: "log_entry list"

definition New :: "(nat \<Rightarrow> Time) \<Rightarrow> Duration \<Rightarrow> Duration \<Rightarrow> NetatmoCollector" where
  \<comment> \<open>every field that \<^verbatim>\<open>New\<close> does not set has the zero value of its type;
      the first argument is \<^verbatim>\<open>time.Now\<close>\<close>
  "New now refreshInterval staleDuration =
     \<lparr>RefreshInterval = refreshInterval, StaleThreshold = staleDuration, clock = now,
      lastRefresh = 0, lastRefreshError = None, lastRefreshDuration = 0,
      cacheTimestamp = 0, cachedData = None\<rparr>"

definition read_clock :: "NetatmoCollector \<Rightarrow> world \<Rightarrow> Time \<times> world" where
  \<comment> \<open>one call of \<^verbatim>\<open>c.clock()\<close>\<close>
  "read_clock c w = (clock c (ticks w), w\<lparr>ticks := Suc (ticks w)\<rparr>)"

definition log_line :: "log_entry \<Rightarrow> world \<Rightarrow> world" where
  "log_line e w = w\<lparr>logged := logged w @ [e]\<rparr>"

definition sendMetric ::
  "(string \<Rightarrow> bool) \<Rightarrow> Desc \<Rightarrow> ValueType \<Rightarrow> float64 \<Rightarrow> string list \<Rightarrow> world \<Rightarrow> world" where
  "sendMetric ValidString d vt v lvs w =
     (case NewConstMetric ValidString d vt v lvs of
        Inl err \<Rightarrow> log_line (Error_creating_metric updatedDesc err) w
      | Inr m \<Rightarrow> w\<lparr>mChan := mChan w @ [m]\<rparr>)"

definition convertTime :: "Time \<Rightarrow> float64" where
  "convertTime t = (if IsZero t then float64_of_int 0 else float64_of_int (Unix t))"

fun statements :: "('s \<Rightarrow> 's) list \<Rightarrow> 's \<Rightarrow> 's" where
  \<comment> \<open>statements run one after the other\<close>
  "statements [] w = w"
| "statements (f # fs) w = statements fs (f w)"

definition if_not_nil :: "'a option \<Rightarrow> ('a \<Rightarrow> 's \<Rightarrow> 's) \<Rightarrow> 's \<Rightarrow> 's" where
  \<comment> \<open>\<^verbatim>\<open>if p != nil { ... *p ... }\<close>\<close>
  "if_not_nil p f w = (case p of None \<Rightarrow> w | Some x \<Rightarrow> f x w)"

definition moduleName :: "Device \<Rightarrow> string" where
  \<comment> \<open>the local variable \<^verbatim>\<open>moduleName\<close> of \<^verbatim>\<open>collectData\<close>\<close>
  "moduleName device = (if ModuleName device = [] then ''id-'' @ ID device else ModuleName device)"

definition collectData ::
  "(string \<Rightarrow> bool) \<Rightarrow> NetatmoCollector \<Rightarrow> Device \<Rightarrow> string \<Rightarrow> world \<Rightarrow> world" where
  "collectData ValidString c device stationName w =
     (let data = DashboardData device;
          send = (\<lambda>d v. sendMetric ValidString d GaugeValue v [moduleName device, stationName])
      in case LastMeasure data of
           None \<Rightarrow> log_line Debug_No_data_available w
         | Some lm \<Rightarrow>
             (let date = time_Unix (sint lm) 0;
                  (now, w1) = read_clock c w;
                  dataAge = Sub now date
              in if sint (StaleThreshold c) < sint dataAge
                 then log_line (Debug_Data_is_stale (moduleName device) dataAge (StaleThreshold c)) w1
                 else statements
                   [send updatedDesc (float64_of_int (Unix (UTC date))),
                    if_not_nil (Temperature data) (\<lambda>x. send tempDesc (float64_of_num x)),
                    if_not_nil (Humidity data) (\<lambda>x. send humidityDesc (float64_of_num x)),
                    if_not_nil (CO2 data) (\<lambda>x. send cotwoDesc (float64_of_num x)),
                    if_not_nil (Noise data) (\<lambda>x. send noiseDesc (float64_of_num x)),
                    if_not_nil (Pressure data) (\<lambda>x. send pressureDesc (float64_of_num x)),
                    if_not_nil (WindStrength data) (\<lambda>x. send windStrengthDesc (float64_of_num x)),
                    if_not_nil (WindAngle data) (\<lambda>x. send windDirectionDesc (float64_of_num x)),
                    if_not_nil (Rain data) (\<lambda>x. send rainDesc (float64_of_num x)),
                    if_not_nil (BatteryPercent device) (\<lambda>x. send batteryDesc (float64_of_num x)),
                    if_not_nil (WifiStatus device) (\<lambda>x. send wifiDesc (float64_of_num x)),
                    if_not_nil (RFStatus device) (\<lambda>x. send rfDesc (float64_of_num x)),
                    if_not_nil (HealthIdx data) (\<lambda>x. send healthIndexDesc (float64_of_num x)),
                    if_not_nil (AbsolutePressure data)
                      (\<lambda>x. send absolutePressureDesc (float64_of_num x)),
                    if_not_nil (LastMeasure data)
                      (\<lambda>x. send lastMeasureUtcDesc (float64_of_int (sint x)))]
                   w1))"

type_synonym ReadFunction = "NetatmoCollector \<Rightarrow> DeviceCollection option \<times> error option"

definition RefreshData ::
  "NetatmoCollector \<Rightarrow> Time \<Rightarrow> ReadFunction \<Rightarrow> world \<Rightarrow> NetatmoCollector \<times> world" where
  \<comment> \<open>The read function is called after the attempt time and the start of the measurement
      have been taken. The deferred function, which stores the duration, runs last on both
      paths.\<close>
  "RefreshData c now ReadFunction w =
     (let w0 = log_line (Debug_Refreshing_data (Sub now (lastRefresh c))) w;
          c1 = c\<lparr>lastRefresh := now\<rparr>;
          (start, w1) = read_clock c1 w0;
          (devices, err) = ReadFunction c1;
          c2 = c1\<lparr>lastRefreshError := err\<rparr>
      in case err of
           Some e \<Rightarrow>
             (let w2 = log_line (Error_during_refresh e) w1;
                  (finish, w3) = read_clock c2 w2
              in (c2\<lparr>lastRefreshDuration := Sub finish start\<rparr>, w3))
         | None \<Rightarrow>
             (let c3 = c2\<lparr>cacheTimestamp := now\<rparr>;
                  c4 = c3\<lparr>cachedData := devices\<rparr>;
                  (finish, w2) = read_clock c4 w1
              in (c4\<lparr>lastRefreshDuration := Sub finish start\<rparr>, w2)))"

fun collectModules ::
  "(string \<Rightarrow> bool) \<Rightarrow> NetatmoCollector \<Rightarrow> string \<Rightarrow> Device list \<Rightarrow> world \<Rightarrow> world" where
  \<comment> \<open>\<^verbatim>\<open>for _, module := range dev.LinkedModules\<close>\<close>
  "collectModules ValidString c stationName [] w = w"
| "collectModules ValidString c stationName (m # ms) w =
     collectModules ValidString c stationName ms (collectData ValidString c m stationName w)"

fun collectDevices :: "(string \<Rightarrow> bool) \<Rightarrow> NetatmoCollector \<Rightarrow> Device list \<Rightarrow> world \<Rightarrow> world" where
  \<comment> \<open>\<^verbatim>\<open>for _, dev := range c.cachedData.Devices()\<close>\<close>
  "collectDevices ValidString c [] w = w"
| "collectDevices ValidString c (dev # devs) w =
     (let stationName = StationName dev;
          w1 = collectData ValidString c dev stationName w;
          w2 = collectModules ValidString c stationName (LinkedModules dev) w1
      in collectDevices ValidString c devs w2)"

definition upValue :: "NetatmoCollector \<Rightarrow> float64" where
  \<comment> \<open>the local variable \<^verbatim>\<open>upValue\<close> of \<^verbatim>\<open>Collect\<close>\<close>
  "upValue c =
     (if IsZero (lastRefresh c) \<or> lastRefreshError c \<noteq> None
      then float64_of_int 0 else float64_of_int 1)"

definition Collect ::
  "(string \<Rightarrow> bool) \<Rightarrow> NetatmoCollector \<Rightarrow> world \<Rightarrow> Time option \<times> world" where
  \<comment> \<open>The first component is \<open>Some now\<close> when the scrape starts \<^verbatim>\<open>go c.RefreshData(now)\<close>.
      The scrape reads the collector as it is when the scrape begins: the refresh it starts
      runs after it.\<close>
  "Collect ValidString c w =
     (let (now, w1) = read_clock c w;
          started = (if sint (RefreshInterval c) \<le> sint (Sub now (lastRefresh c))
                     then Some now else None);
          w2 = statements
            [sendMetric ValidString netatmoUpDesc GaugeValue (upValue c) [],
             sendMetric ValidString refreshIntervalDesc GaugeValue (Seconds (RefreshInterval c)) [],
             sendMetric ValidString refreshTimestampDesc GaugeValue (convertTime (lastRefresh c)) [],
             sendMetric ValidString refreshDurationDesc GaugeValue
               (Seconds (lastRefreshDuration c)) [],
             sendMetric ValidString cacheTimestampDesc GaugeValue
               (convertTime (cacheTimestamp c)) []]
            w1
      in (started,
          case cachedData c of
            None \<Rightarrow> w2
          | Some dc \<Rightarrow> collectDevices ValidString c (Devices dc) w2))"

subsection \<open>Observing a scrape and running refreshes\<close>

definition emitted :: "world \<Rightarrow> world \<Rightarrow> Metric list" where
  \<comment> \<open>the metrics sent to the channel between the world \<open>w\<close> and the later world \<open>w'\<close>\<close>
  "emitted w w' = drop (length (mChan w)) (mChan w')"

fun refreshes ::
  "NetatmoCollector \<Rightarrow> (Time \<times> DeviceCollection option \<times> error option) list \<Rightarrow> world
     \<Rightarrow> NetatmoCollector \<times> world" where
  \<comment> \<open>executions of \<^verbatim>\<open>RefreshData\<close> one after the other, each with its attempt time
      and with what the read function returns to it\<close>
  "refreshes c [] w = (c, w)"
| "refreshes c ((now, result) # rest) w =
     (let (c', w') = RefreshData c now (\<lambda>observed. result) w in refreshes c' rest w')"

definition succeeded :: "Time \<times> DeviceCollection option \<times> error option \<Rightarrow> bool" where
  \<comment> \<open>the read function returned no error in this execution\<close>
  "succeeded ev = (snd (snd ev) = None)"

subsection \<open>Notions used in the proofs\<close>

definition appends :: "(Metric \<Rightarrow> bool) \<Rightarrow> (world \<Rightarrow> world) \<Rightarrow> bool" where
  \<comment> \<open>\<open>f\<close> only adds metrics to the channel, and each metric it adds satisfies \<open>P\<close>\<close>
  "appends P f = (\<forall>w. \<exists>xs. mChan (f w) = mChan w @ xs \<and> list_all P xs)"

definition leaf_labelled :: "Device \<Rightarrow> string \<Rightarrow> Metric \<Rightarrow> bool" where
  \<comment> \<open>a metric with the labels \<^verbatim>\<open>module\<close> and \<^verbatim>\<open>station\<close>, whose values are the
      module name of the device and the given station name\<close>
  "leaf_labelled device stationName m =
     (variableLabels (desc m) = varLabels \<and> labelValues m = [moduleName device, stationName])"

definition labelled_by_leaf_of :: "Device list \<Rightarrow> Metric \<Rightarrow> bool" where
  \<comment> \<open>the module label is the module name of a device of the list or of one of its linked
      modules, and the station label is the station name of that device of the list\<close>
  "labelled_by_leaf_of devs m =
     (\<exists>dev\<in>set devs. \<exists>leaf\<in>set (dev # LinkedModules dev).
        leaf_labelled leaf (StationName dev) m)"

definition selfHealth :: "NetatmoCollector \<Rightarrow> Metric list" where
  \<comment> \<open>the five metrics about the exporter itself\<close>
  "selfHealth c =
     [\<lparr>desc = netatmoUpDesc, valueType = GaugeValue, val = upValue c, labelValues = []\<rparr>,
      \<lparr>desc = refreshIntervalDesc, valueType = GaugeValue, val = Seconds (RefreshInterval c),
       labelValues = []\<rparr>,
      \<lparr>desc = refreshTimestampDesc, valueType = GaugeValue, val = convertTime (lastRefresh c),
       labelValues = []\<rparr>,
      \<lparr>desc = refreshDurationDesc, valueType = GaugeValue, val = Seconds (lastRefreshDuration c),
       labelValues = []\<rparr>,
      \<lparr>desc = cacheTimestampDesc, valueType = GaugeValue, val = convertTime (cacheTimestamp c),
       labelValues = []\<rparr>]"

definition leaves :: "Device list \<Rightarrow> (Device \<times> string) list" where
  \<comment> \<open>each device followed by its linked modules, every one of them with the station name
      of the device\<close>
  "leaves devs =
     concat (map (\<lambda>dev. (dev, StationName dev) # map (\<lambda>m. (m, StationName dev)) (LinkedModules dev))
       devs)"

definition appender :: "Metric list \<Rightarrow> world \<Rightarrow> world" where
  \<comment> \<open>sending the metrics of a list to the channel\<close>
  "appender xs w = w\<lparr>mChan := mChan w @ xs\<rparr>"

definition optional :: "'a option \<Rightarrow> ('a \<Rightarrow> 'b) \<Rightarrow> 'b list" where
  \<comment> \<open>one element for a value that is present, none for a nil pointer\<close>
  "optional p g = (case p of None \<Rightarrow> [] | Some x \<Rightarrow> [g x])"

definition leafMetrics :: "Device \<Rightarrow> string \<Rightarrow> 64 word \<Rightarrow> Metric list" where
  \<comment> \<open>the gauges of a leaf within the stale threshold, in the order of \<open>collectData\<close>:
      \<^verbatim>\<open>updated\<close>, one for each optional value that is present, \<^verbatim>\<open>last_measure_utc\<close>\<close>
  "leafMetrics device stationName lm =
     (let data = DashboardData device;
          gauge = (\<lambda>d v. \<lparr>desc = d, valueType = GaugeValue, val = v,
                           labelValues = [moduleName device, stationName]\<rparr>)
      in gauge updatedDesc (float64_of_int (sint lm)) #
         concat
          [optional (Temperature data) (\<lambda>x. gauge tempDesc (float64_of_num x)),
           optional (Humidity data) (\<lambda>x. gauge humidityDesc (float64_of_num x)),
           optional (CO2 data) (\<lambda>x. gauge cotwoDesc (float64_of_num x)),
           optional (Noise data) (\<lambda>x. gauge noiseDesc (float64_of_num x)),
           optional (Pressure data) (\<lambda>x. gauge pressureDesc (float64_of_num x)),
           optional (WindStrength data) (\<lambda>x. gauge windStrengthDesc (float64_of_num x)),
           optional (WindAngle data) (\<lambda>x. gauge windDirectionDesc (float64_of_num x)),
           optional (Rain data) (\<lambda>x. gauge rainDesc (float64_of_num x)),
           optional (BatteryPercent device) (\<lambda>x. gauge batteryDesc (float64_of_num x)),
           optional (WifiStatus device) (\<lambda>x. gauge wifiDesc (float64_of_num x)),
           optional (RFStatus device) (\<lambda>x. gauge rfDesc (float64_of_num x)),
           optional (HealthIdx data) (\<lambda>x. gauge healthIndexDesc (float64_of_num x)),
           optional (AbsolutePressure data) (\<lambda>x. gauge absolutePressureDesc (float64_of_num x))] @
         [gauge lastMeasureUtcDesc (float64_of_int (sint lm))])"

subsection \<open>The announced descriptors and the schema of the specification\<close>

definition Describe :: "Desc list" where
  \<comment> \<open>the descriptors that \<^verbatim>\<open>Describe\<close> sends, in its order\<close>
  "Describe =
     [netatmoUpDesc, refreshIntervalDesc, refreshTimestampDesc, refreshDurationDesc,
      cacheTimestampDesc, updatedDesc, tempDesc, humidityDesc, cotwoDesc, noiseDesc,
      pressureDesc, windStrengthDesc, windDirectionDesc, rainDesc, batteryDesc, wifiDesc,
      rfDesc, absolutePressureDesc, lastMeasureUtcDesc, healthIndexDesc]"

definition perLeafDescs :: "Desc list" where
  \<comment> \<open>the announced descriptors that carry the labels \<^verbatim>\<open>module\<close> and \<^verbatim>\<open>station\<close>\<close>
  "perLeafDescs = filter (\<lambda>d. variableLabels d = varLabels) Describe"

definition spec_schema_per_leaf :: "string list" where
  \<comment> \<open>the rows of the metric schema in section 6 of the specification whose labels are
      module and station, as the specification lists them\<close>
  "spec_schema_per_leaf =
     [''netatmo_aircare_updated'', ''netatmo_aircare_temperature_celsius'',
      ''netatmo_aircare_humidity_percent'', ''netatmo_aircare_co2_ppm'',
      ''netatmo_aircare_noise_db'', ''netatmo_aircare_pressure_mb'',
      ''netatmo_aircare_absolute_pressure'', ''netatmo_aircare_wind_strength_kph'',
      ''netatmo_aircare_wind_direction_degrees'', ''netatmo_aircare_rain_amount_mm'',
      ''netatmo_aircare_battery_percent'', ''netatmo_aircare_wifi_signal_strength'',
      ''netatmo_aircare_rf_signal_strength'', ''netatmo_aircare_health_index'']"

subsection \<open>Example data\<close>

definition ascii :: "string \<Rightarrow> bool" where
  \<comment> \<open>a check that accepts the ASCII strings, all of which are valid UTF-8\<close>
  "ascii s = list_all (\<lambda>ch. (of_char ch :: nat) < 128) s"

definition example_clock :: "nat \<Rightarrow> Time" where
  \<comment> \<open>a clock that advances by one second with each reading\<close>
  "example_clock n = time_Unix (1700000300 + int n) 0"

definition example_collector :: NetatmoCollector where
  \<comment> \<open>refresh interval 60 s, stale threshold 300 s\<close>
  "example_collector = New example_clock 60000000000 300000000000"

definition example_world :: world where
  "example_world = \<lparr>ticks = 0, mChan = [], logged = []\<rparr>"

definition no_readings :: DashboardData where
  "no_readings =
     \<lparr>Temperature = None, Humidity = None, CO2 = None, Noise = None, Pressure = None,
      AbsolutePressure = None, WindStrength = None, WindAngle = None, Rain = None,
      HealthIdx = None, LastMeasure = None\<rparr>"

definition outdoor :: Device where
  \<comment> \<open>a linked module without a name, measured 300 s before the first clock reading\<close>
  "outdoor = Device ''02:00:00:00:00:02'' [] [] (Some 80) None (Some 60)
     (no_readings\<lparr>Temperature := Some 7.5, LastMeasure := Some 1700000000\<rparr>) []"

definition bare :: Device where
  \<comment> \<open>a linked module that reports its measuring time and nothing else\<close>
  "bare = Device ''03:00:00:00:00:03'' [] ''Bare'' None None None
     (no_readings\<lparr>LastMeasure := Some 1700000200\<rparr>) []"

definition station :: Device where
  \<comment> \<open>a main device with two linked modules\<close>
  "station = Device ''70:ee:50:00:00:01'' ''Home'' ''Indoor'' None (Some 56) None
     (no_readings\<lparr>Temperature := Some 21.5, Humidity := Some 55,
        LastMeasure := Some 1700000290\<rparr>)
     [outdoor, bare]"

definition patient_collector :: NetatmoCollector where
  \<comment> \<open>the example collector with a stale threshold of 600 s and a cached collection\<close>
  "patient_collector =
     example_collector\<lparr>StaleThreshold := 600000000000, cachedData := Some \<lparr>Devices = [station]\<rparr>\<rparr>"

section \<open>Durations\<close>

lemma sint_word_of_int_64:
  "- (2 ^ 63) \<le> k \<Longrightarrow> k < 2 ^ 63 \<Longrightarrow> sint (word_of_int k :: 64 word) = k"
  by (simp add: sint_sbintrunc' signed_take_bit_int_eq_self)

lemma sint_Sub: "sint (Sub t u) = max minDuration (min maxDuration (t - u))"
proof -
  define d where "d = t - u"
  have sub: "Sub t u = word_of_int (max minDuration (min maxDuration d))"
    unfolding Sub_def Let_def d_def [symmetric]
    by (simp add: minDuration_def maxDuration_def max_def min_def)
  have "- (2 ^ 63) \<le> max minDuration (min maxDuration d)"
    and "max minDuration (min maxDuration d) < 2 ^ 63"
    by (simp_all add: minDuration_def maxDuration_def)
  then have "sint (word_of_int (max minDuration (min maxDuration d)) :: 64 word) =
      max minDuration (min maxDuration d)"
    by (rule sint_word_of_int_64)
  with sub show ?thesis by (simp add: d_def)
qed

lemma sint_Sub_exact:
  "minDuration \<le> t - u \<Longrightarrow> t - u \<le> maxDuration \<Longrightarrow> sint (Sub t u) = t - u"
  by (simp add: sint_Sub)

lemma sint_Sub_ge_iff:
  "minDuration \<le> t - u \<Longrightarrow> (sint (i :: Duration) \<le> sint (Sub t u)) = (sint i \<le> t - u)"
  using sint_less [of i] by (auto simp: sint_Sub maxDuration_def min_def max_def)

lemma sint_Sub_le_iff:
  "t - u \<le> maxDuration \<Longrightarrow> (sint (Sub t u) \<le> sint (s :: Duration)) = (t - u \<le> sint s)"
  using sint_ge [of s] by (auto simp: sint_Sub minDuration_def min_def max_def)

lemma Unix_time_Unix: "Unix (UTC (time_Unix sec 0)) = sec"
  by (simp add: Unix_def UTC_def time_Unix_def)

section \<open>What one refresh does to the collector\<close>

lemma RefreshData_lastRefresh: "lastRefresh (fst (RefreshData c now R w)) = now"
  by (simp add: RefreshData_def Let_def read_clock_def split: prod.splits option.splits)

lemma RefreshData_lastRefreshError:
  "lastRefreshError (fst (RefreshData c now R w)) = snd (R (c\<lparr>lastRefresh := now\<rparr>))"
  by (simp add: RefreshData_def Let_def read_clock_def split: prod.splits option.splits)

lemma RefreshData_cacheTimestamp:
  "cacheTimestamp (fst (RefreshData c now R w)) =
     (if snd (R (c\<lparr>lastRefresh := now\<rparr>)) = None then now else cacheTimestamp c)"
  by (simp add: RefreshData_def Let_def read_clock_def split: prod.splits option.splits)

lemma RefreshData_cachedData:
  "cachedData (fst (RefreshData c now R w)) =
     (if snd (R (c\<lparr>lastRefresh := now\<rparr>)) = None then fst (R (c\<lparr>lastRefresh := now\<rparr>))
      else cachedData c)"
  by (simp add: RefreshData_def Let_def read_clock_def split: prod.splits option.splits)

lemma RefreshData_read_at_call:
  "RefreshData c now R w = RefreshData c now (\<lambda>observed. R (c\<lparr>lastRefresh := now\<rparr>)) w"
  by (simp add: RefreshData_def)

lemma refreshes_Cons:
  "refreshes c ((now, result) # rest) w =
     refreshes (fst (RefreshData c now (\<lambda>observed. result) w)) rest
       (snd (RefreshData c now (\<lambda>observed. result) w))"
  by (simp add: case_prod_beta)

lemma refreshes_snoc:
  "refreshes c (evs @ [(now, result)]) w =
     RefreshData (fst (refreshes c evs w)) now (\<lambda>observed. result) (snd (refreshes c evs w))"
proof (induction evs arbitrary: c w)
  case Nil
  show ?case by (simp add: case_prod_beta)
next
  case (Cons ev evs)
  then show ?case by (cases ev) (simp add: refreshes_Cons del: refreshes.simps)
qed

lemma refreshes_invariant:
  "cacheTimestamp c \<le> lastRefresh c \<Longrightarrow> sorted (lastRefresh c # map fst evs) \<Longrightarrow>
   cacheTimestamp (fst (refreshes c evs w)) \<le> lastRefresh (fst (refreshes c evs w))"
proof (induction evs arbitrary: c w)
  case Nil
  then show ?case by simp
next
  case (Cons ev evs)
  obtain now devices err where ev: "ev = (now, devices, err)"
    by (cases ev) auto
  let ?c = "fst (RefreshData c now (\<lambda>observed. (devices, err)) w)"
  let ?w = "snd (RefreshData c now (\<lambda>observed. (devices, err)) w)"
  from Cons.prems have "lastRefresh c \<le> now" and "sorted (now # map fst evs)"
    by (simp_all add: ev)
  with Cons.prems(1) have "cacheTimestamp ?c \<le> lastRefresh ?c"
    and "sorted (lastRefresh ?c # map fst evs)"
    by (simp_all add: RefreshData_lastRefresh RefreshData_cacheTimestamp)
  then have "cacheTimestamp (fst (refreshes ?c evs ?w)) \<le> lastRefresh (fst (refreshes ?c evs ?w))"
    by (rule Cons.IH)
  then show ?case by (simp add: ev refreshes_Cons del: refreshes.simps)
qed

lemma Collect_started:
  "fst (Collect V c w) =
     (if sint (RefreshInterval c) \<le> sint (Sub (clock c (ticks w)) (lastRefresh c))
      then Some (clock c (ticks w)) else None)"
  by (simp add: Collect_def read_clock_def case_prod_beta Let_def del: statements.simps)

section \<open>The refresh executor\<close>

text \<open>
  C4. When the read function, called by \<open>RefreshData\<close>, returns an error, \<open>RefreshData\<close>
  stores that error as the last refresh error, whatever the collector held before, and
  leaves the cached device collection and the cache timestamp as they were.
\<close>

theorem RefreshData_error_keeps_cache:
  assumes "ReadFunction (c\<lparr>lastRefresh := now\<rparr>) = (devices, Some e)"
  shows "lastRefreshError (fst (RefreshData c now ReadFunction w)) = Some e
   \<and> cachedData (fst (RefreshData c now ReadFunction w)) = cachedData c
   \<and> cacheTimestamp (fst (RefreshData c now ReadFunction w)) = cacheTimestamp c"
  by (simp add: RefreshData_lastRefreshError RefreshData_cachedData RefreshData_cacheTimestamp
      assms)

theorem RefreshData_error_keeps_cache_witness:
  "(\<lambda>observed. (Some \<lparr>Devices = [station]\<rparr>, Some ''timeout''))
     (example_collector\<lparr>cacheTimestamp := 100, cachedData := Some \<lparr>Devices = []\<rparr>,
        lastRefresh := 300\<rparr>) =
   (Some \<lparr>Devices = [station]\<rparr>, Some ''timeout'')
   \<and> lastRefreshError (fst (RefreshData
        (example_collector\<lparr>cacheTimestamp := 100, cachedData := Some \<lparr>Devices = []\<rparr>\<rparr>) 300
        (\<lambda>observed. (Some \<lparr>Devices = [station]\<rparr>, Some ''timeout'')) example_world)) =
      Some ''timeout''
   \<and> cachedData (fst (RefreshData
        (example_collector\<lparr>cacheTimestamp := 100, cachedData := Some \<lparr>Devices = []\<rparr>\<rparr>) 300
        (\<lambda>observed. (Some \<lparr>Devices = [station]\<rparr>, Some ''timeout'')) example_world)) =
      Some \<lparr>Devices = []\<rparr>
   \<and> cacheTimestamp (fst (RefreshData
        (example_collector\<lparr>cacheTimestamp := 100, cachedData := Some \<lparr>Devices = []\<rparr>\<rparr>) 300
        (\<lambda>observed. (Some \<lparr>Devices = [station]\<rparr>, Some ''timeout'')) example_world)) = 100"
  using RefreshData_error_keeps_cache
    [where ReadFunction = "\<lambda>observed. (Some \<lparr>Devices = [station]\<rparr>, Some ''timeout'')"
       and c = "example_collector\<lparr>cacheTimestamp := 100, cachedData := Some \<lparr>Devices = []\<rparr>\<rparr>"
       and now = 300 and devices = "Some \<lparr>Devices = [station]\<rparr>" and e = "''timeout''"
       and w = example_world]
  by simp

text \<open>
  C5. When the read function, called by \<open>RefreshData\<close> at time \<open>now\<close>, returns a device
  collection and no error, \<open>RefreshData\<close> clears the stored error, caches the collection it was
  given, and sets the cache timestamp and the last attempt time to \<open>now\<close>, so that the two are
  equal afterwards. The attempt time is recorded before the read function is called: any read
  function is called on the collector whose last attempt time is \<open>now\<close> already and whose
  other fields are still those from before the refresh, so that a read function which looks
  for the attempt time finds it. A scrape of the collector in that state does not start
  another refresh while less than the refresh interval has passed since \<open>now\<close>. The attempt
  time remains \<open>now\<close> after the execution, whatever the read function returned.
\<close>

theorem RefreshData_success_updates_cache:
  assumes "ReadFunction (c\<lparr>lastRefresh := now\<rparr>) = (devices, None)"
  shows "lastRefreshError (fst (RefreshData c now ReadFunction w)) = None
   \<and> cachedData (fst (RefreshData c now ReadFunction w)) = devices
   \<and> cacheTimestamp (fst (RefreshData c now ReadFunction w)) = now
   \<and> lastRefresh (fst (RefreshData c now ReadFunction w)) = now
   \<and> cacheTimestamp (fst (RefreshData c now ReadFunction w)) =
       lastRefresh (fst (RefreshData c now ReadFunction w))
   \<and> RefreshData c now anyRead w =
       RefreshData c now (\<lambda>observed. anyRead (c\<lparr>lastRefresh := now\<rparr>)) w
   \<and> lastRefreshError (fst (RefreshData c now
         (\<lambda>observed. (None, if lastRefresh observed = now then None
                             else Some ''the attempt time is not recorded yet''))
         w)) = None
   \<and> (sint (Sub (clock c (ticks w')) now) < sint (RefreshInterval c) \<longrightarrow>
        fst (Collect ValidString (c\<lparr>lastRefresh := now\<rparr>) w') = None)
   \<and> lastRefresh (fst (RefreshData c now anyRead w)) = now"
proof -
  have "RefreshData c now anyRead w =
      RefreshData c now (\<lambda>observed. anyRead (c\<lparr>lastRefresh := now\<rparr>)) w"
    by (rule RefreshData_read_at_call)
  moreover have "sint (Sub (clock c (ticks w')) now) < sint (RefreshInterval c) \<longrightarrow>
      fst (Collect ValidString (c\<lparr>lastRefresh := now\<rparr>) w') = None"
    by (simp add: Collect_started)
  ultimately show ?thesis
    by (simp add: RefreshData_lastRefreshError RefreshData_cachedData RefreshData_cacheTimestamp
        RefreshData_lastRefresh assms)
qed

theorem RefreshData_success_updates_cache_witness:
  "(\<lambda>observed. (Some \<lparr>Devices = [station]\<rparr>,
       if lastRefresh observed = 300 then None else Some ''the attempt time is not recorded yet''))
     (example_collector\<lparr>lastRefreshError := Some ''timeout'', lastRefresh := 300\<rparr>) =
   (Some \<lparr>Devices = [station]\<rparr>, None)
   \<and> lastRefresh (example_collector\<lparr>lastRefreshError := Some ''timeout''\<rparr>) \<noteq> 300
   \<and> lastRefreshError (fst (RefreshData (example_collector\<lparr>lastRefreshError := Some ''timeout''\<rparr>) 300
        (\<lambda>observed. (Some \<lparr>Devices = [station]\<rparr>,
           if lastRefresh observed = 300 then None
           else Some ''the attempt time is not recorded yet''))
        example_world)) = None
   \<and> cachedData (fst (RefreshData (example_collector\<lparr>lastRefreshError := Some ''timeout''\<rparr>) 300
        (\<lambda>observed. (Some \<lparr>Devices = [station]\<rparr>,
           if lastRefresh observed = 300 then None
           else Some ''the attempt time is not recorded yet''))
        example_world)) = Some \<lparr>Devices = [station]\<rparr>
   \<and> cacheTimestamp (fst (RefreshData (example_collector\<lparr>lastRefreshError := Some ''timeout''\<rparr>) 300
        (\<lambda>observed. (Some \<lparr>Devices = [station]\<rparr>,
           if lastRefresh observed = 300 then None
           else Some ''the attempt time is not recorded yet''))
        example_world)) = 300
   \<and> lastRefresh (fst (RefreshData (example_collector\<lparr>lastRefreshError := Some ''timeout''\<rparr>) 300
        (\<lambda>observed. (Some \<lparr>Devices = [station]\<rparr>,
           if lastRefresh observed = 300 then None
           else Some ''the attempt time is not recorded yet''))
        example_world)) = 300"
proof -
  have old: "lastRefresh (example_collector\<lparr>lastRefreshError := Some ''timeout''\<rparr>) \<noteq> 300"
    by (simp add: example_collector_def New_def)
  from RefreshData_success_updates_cache
    [where ReadFunction = "\<lambda>observed. (Some \<lparr>Devices = [station]\<rparr>,
           if lastRefresh observed = 300 then None
           else Some ''the attempt time is not recorded yet'')"
       and c = "example_collector\<lparr>lastRefreshError := Some ''timeout''\<rparr>" and now = 300
       and devices = "Some \<lparr>Devices = [station]\<rparr>" and w = example_world]
  show ?thesis using old by simp
qed

text \<open>
  C7. Start from the collector that \<open>New\<close> returns and execute any number of refreshes,
  successful or not, whose attempt times do not decrease, beginning at the zero time that
  the last attempt time holds initially. Then the cache timestamp is at most the last
  attempt time.
\<close>

theorem cacheTimestamp_le_lastRefresh:
  assumes "sorted (0 # map fst evs)"
  shows "cacheTimestamp (fst (refreshes (New clk refreshInterval staleDuration) evs w))
         \<le> lastRefresh (fst (refreshes (New clk refreshInterval staleDuration) evs w))"
  using assms by (intro refreshes_invariant) (simp_all add: New_def)

theorem cacheTimestamp_le_lastRefresh_witness:
  "sorted (0 # map fst
     [(100 :: Time, None, Some ''timeout''), (200, Some \<lparr>Devices = []\<rparr>, None), (300, None, Some ''timeout'')])
   \<and> cacheTimestamp (fst (refreshes (New (\<lambda>n. 0) 60 300)
         [(100 :: Time, None, Some ''timeout''), (200, Some \<lparr>Devices = []\<rparr>, None),
          (300, None, Some ''timeout'')]
         \<lparr>ticks = 0, mChan = [], logged = []\<rparr>))
       \<le> lastRefresh (fst (refreshes (New (\<lambda>n. 0) 60 300)
         [(100 :: Time, None, Some ''timeout''), (200, Some \<lparr>Devices = []\<rparr>, None),
          (300, None, Some ''timeout'')]
         \<lparr>ticks = 0, mChan = [], logged = []\<rparr>))"
  using cacheTimestamp_le_lastRefresh
    [of "[(100 :: Time, None, Some ''timeout''), (200, Some \<lparr>Devices = []\<rparr>, None),
          (300, None, Some ''timeout'')]"
        "\<lambda>n. 0" 60 300 "\<lparr>ticks = 0, mChan = [], logged = []\<rparr>"]
  by simp

section \<open>What the emitter adds to the channel\<close>

lemma appendsI: "(\<And>w. \<exists>xs. mChan (f w) = mChan w @ xs \<and> list_all P xs) \<Longrightarrow> appends P f"
  by (simp add: appends_def)

lemma appends_id: "appends P (\<lambda>w. w)"
  by (simp add: appends_def)

lemma appends_log_line: "appends P (log_line e)"
  by (simp add: appends_def log_line_def)

lemma appends_comp: "appends P f \<Longrightarrow> appends P g \<Longrightarrow> appends P (\<lambda>w. g (f w))"
  unfolding appends_def
proof
  fix w
  assume f: "\<forall>w. \<exists>xs. mChan (f w) = mChan w @ xs \<and> list_all P xs"
    and g: "\<forall>w. \<exists>xs. mChan (g w) = mChan w @ xs \<and> list_all P xs"
  from f obtain xs where xs: "mChan (f w) = mChan w @ xs" "list_all P xs" by blast
  from g obtain ys where ys: "mChan (g (f w)) = mChan (f w) @ ys" "list_all P ys" by blast
  from xs ys have "mChan (g (f w)) = mChan w @ (xs @ ys) \<and> list_all P (xs @ ys)" by simp
  then show "\<exists>zs. mChan (g (f w)) = mChan w @ zs \<and> list_all P zs" by blast
qed

lemma appends_mono: "appends P f \<Longrightarrow> (\<And>m. P m \<Longrightarrow> Q m) \<Longrightarrow> appends Q f"
  unfolding appends_def by (metis list.pred_mono_strong)

lemma appends_sendMetric:
  "(\<And>m. NewConstMetric V d vt v lvs = Inr m \<Longrightarrow> P m) \<Longrightarrow> appends P (sendMetric V d vt v lvs)"
  by (auto simp: appends_def sendMetric_def log_line_def split: sum.splits)

lemma appends_if_not_nil: "(\<And>x. p = Some x \<Longrightarrow> appends P (f x)) \<Longrightarrow> appends P (if_not_nil p f)"
  by (cases p) (simp_all add: if_not_nil_def [abs_def] appends_id)

lemma appends_statements: "(\<And>f. f \<in> set fs \<Longrightarrow> appends P f) \<Longrightarrow> appends P (statements fs)"
proof (induction fs)
  case Nil
  show ?case by (simp add: appends_def)
next
  case (Cons f fs)
  have "appends P (\<lambda>w. statements fs (f w))"
    by (rule appends_comp) (simp_all add: Cons)
  then show ?case by (simp add: appends_def)
qed

lemma NewConstMetric_Inr:
  "NewConstMetric V d vt v lvs = Inr m \<Longrightarrow> desc m = d \<and> valueType m = vt \<and> val m = v \<and> labelValues m = lvs"
  by (auto simp: NewConstMetric_def split: if_splits)


lemmas sensor_descs =
  updatedDesc_def tempDesc_def humidityDesc_def cotwoDesc_def noiseDesc_def pressureDesc_def
  windStrengthDesc_def windDirectionDesc_def rainDesc_def batteryDesc_def wifiDesc_def rfDesc_def
  absolutePressureDesc_def lastMeasureUtcDesc_def healthIndexDesc_def

lemma appends_send_leaf:
  "variableLabels d = varLabels \<Longrightarrow>
   appends (leaf_labelled device s) (sendMetric V d GaugeValue v [moduleName device, s])"
  by (rule appends_sendMetric) (auto simp: leaf_labelled_def dest: NewConstMetric_Inr)

lemma statements_appends:
  assumes "\<And>f. f \<in> set fs \<Longrightarrow> appends P f" and "mChan w1 = mChan w"
  shows "\<exists>xs. mChan (statements fs w1) = mChan w @ xs \<and> list_all P xs"
  using appends_statements [of fs P, OF assms(1)] assms(2) unfolding appends_def by metis

lemma appends_collectData: "appends (leaf_labelled device s) (collectData V c device s)"
proof (rule appendsI)
  fix w
  let ?P = "leaf_labelled device s"
  show "\<exists>xs. mChan (collectData V c device s w) = mChan w @ xs \<and> list_all ?P xs"
  proof (cases "LastMeasure (DashboardData device)")
    case None
    then show ?thesis by (simp add: collectData_def log_line_def)
  next
    case (Some lm)
    show ?thesis
    proof (cases "sint (StaleThreshold c) < sint (Sub (clock c (ticks w)) (time_Unix (sint lm) 0))")
      case True
      with Some show ?thesis by (simp add: collectData_def log_line_def read_clock_def)
    next
      case False
      show ?thesis
        unfolding collectData_def Let_def read_clock_def using Some False
        apply (simp del: statements.simps)
        apply (rule statements_appends)
         apply (auto simp: sensor_descs NewDesc_def intro!: appends_if_not_nil appends_send_leaf)
        done
    qed
  qed
qed


lemma sendMetric_ok:
  "length lvs = length (variableLabels d) \<Longrightarrow> list_all V lvs \<Longrightarrow>
   mChan (sendMetric V d vt v lvs w) =
     mChan w @ [\<lparr>desc = d, valueType = vt, val = v, labelValues = lvs\<rparr>]"
  by (simp add: sendMetric_def NewConstMetric_def)

lemma statements_append: "statements (fs @ gs) w = statements gs (statements fs w)"
  by (induction fs arbitrary: w) simp_all

lemma statements_hd_last:
  assumes len: "2 \<le> length fs"
    and first: "\<And>w. mChan (hd fs w) = mChan w @ [a]"
    and mid: "\<And>h. h \<in> set (butlast (tl fs)) \<Longrightarrow> appends P h"
    and final: "\<And>w. mChan (last fs w) = mChan w @ [b]"
    and start: "mChan w = mChan w0"
  shows "\<exists>xs. mChan (statements fs w) = mChan w0 @ a # xs @ [b] \<and> list_all P xs"
proof -
  from len obtain f fs' where f: "fs = f # fs'" and "fs' \<noteq> []"
    by (cases fs) force+
  then have shape: "fs = f # butlast fs' @ [last fs']" by simp
  have "tl fs = fs'" "hd fs = f" "last fs = last fs'"
    using f \<open>fs' \<noteq> []\<close> by simp_all
  with mid first final
  have mid': "\<And>h. h \<in> set (butlast fs') \<Longrightarrow> appends P h"
    and first': "\<And>w. mChan (f w) = mChan w @ [a]"
    and final': "\<And>w. mChan (last fs' w) = mChan w @ [b]" by simp_all
  from statements_appends [of "butlast fs'" P "f w" "f w", OF mid']
  obtain xs where xs: "mChan (statements (butlast fs') (f w)) = mChan (f w) @ xs" "list_all P xs"
    by auto
  have "statements fs w = last fs' (statements (butlast fs') (f w))"
    by (subst shape) (simp add: statements_append)
  with xs first' final' start have "mChan (statements fs w) = mChan w0 @ a # xs @ [b]" by simp
  with xs show ?thesis by blast
qed

lemma collectData_none:
  "LastMeasure (DashboardData device) = None \<Longrightarrow> mChan (collectData V c device s w) = mChan w"
  by (simp add: collectData_def log_line_def)

lemma collectData_stale:
  "LastMeasure (DashboardData device) = Some lm \<Longrightarrow>
   sint (StaleThreshold c) < sint (Sub (clock c (ticks w)) (time_Unix (sint lm) 0)) \<Longrightarrow>
   mChan (collectData V c device s w) = mChan w"
  by (simp add: collectData_def log_line_def read_clock_def)

lemma collectData_fresh:
  assumes "LastMeasure (DashboardData device) = Some lm"
    and "sint (Sub (clock c (ticks w)) (time_Unix (sint lm) 0)) \<le> sint (StaleThreshold c)"
    and "V (moduleName device)" and "V s"
  shows "\<exists>xs. mChan (collectData V c device s w) =
           mChan w @
           \<lparr>desc = updatedDesc, valueType = GaugeValue, val = float64_of_int (sint lm),
             labelValues = [moduleName device, s]\<rparr> # xs @
           [\<lparr>desc = lastMeasureUtcDesc, valueType = GaugeValue, val = float64_of_int (sint lm),
             labelValues = [moduleName device, s]\<rparr>]
         \<and> list_all (leaf_labelled device s) xs"
proof -
  have unix: "Unix (UTC (time_Unix (sint lm) 0)) = sint lm"
    by (simp add: Unix_def UTC_def time_Unix_def)
  have vl: "variableLabels updatedDesc = varLabels" "variableLabels lastMeasureUtcDesc = varLabels"
    by (simp_all add: updatedDesc_def lastMeasureUtcDesc_def NewDesc_def)
  have len: "length varLabels = 2" by (simp add: varLabels_def)
  show ?thesis
    unfolding collectData_def Let_def read_clock_def using assms(1,2)
    apply (simp del: statements.simps add: unix)
    apply (rule statements_hd_last)
        apply simp
       apply (simp add: sendMetric_ok vl len assms)
      apply (auto simp: sensor_descs NewDesc_def intro!: appends_if_not_nil appends_send_leaf)[1]
     apply (simp add: if_not_nil_def sendMetric_ok vl len assms)
    apply simp
    done
qed


lemma emitted_append: "mChan w' = mChan w @ xs \<Longrightarrow> emitted w w' = xs"
  by (simp add: emitted_def)


lemma appends_collectModules:
  "appends (\<lambda>m. \<exists>leaf\<in>set ms. leaf_labelled leaf s m) (collectModules V c s ms)"
proof (induction ms)
  case Nil
  show ?case by (simp add: appends_def)
next
  case (Cons a ms)
  let ?P = "\<lambda>m. \<exists>leaf\<in>set (a # ms). leaf_labelled leaf s m"
  have "appends ?P (collectData V c a s)"
    by (rule appends_mono [OF appends_collectData]) simp
  moreover have "appends ?P (collectModules V c s ms)"
    by (rule appends_mono [OF Cons.IH]) auto
  ultimately have "appends ?P (\<lambda>w. collectModules V c s ms (collectData V c a s w))"
    by (rule appends_comp)
  then show ?case by (simp add: appends_def)
qed

lemma appends_collectDevices: "appends (labelled_by_leaf_of devs) (collectDevices V c devs)"
proof (induction devs)
  case Nil
  show ?case by (simp add: appends_def)
next
  case (Cons dev devs)
  let ?P = "labelled_by_leaf_of (dev # devs)"
  let ?s = "StationName dev"
  have 1: "appends ?P (collectData V c dev ?s)"
    by (rule appends_mono [OF appends_collectData]) (auto simp: labelled_by_leaf_of_def)
  have 2: "appends ?P (collectModules V c ?s (LinkedModules dev))"
    by (rule appends_mono [OF appends_collectModules]) (auto simp: labelled_by_leaf_of_def)
  have 3: "appends ?P (collectDevices V c devs)"
    by (rule appends_mono [OF Cons.IH]) (auto simp: labelled_by_leaf_of_def)
  have "appends ?P (\<lambda>w. collectDevices V c devs
      (collectModules V c ?s (LinkedModules dev) (collectData V c dev ?s w)))"
    by (rule appends_comp [OF appends_comp [OF 1 2] 3])
  then show ?case by (simp add: appends_def Let_def)
qed

lemma sendMetric_no_labels:
  "variableLabels d = [] \<Longrightarrow>
   mChan (sendMetric V d vt v [] w) =
     mChan w @ [\<lparr>desc = d, valueType = vt, val = v, labelValues = []\<rparr>]"
  by (simp add: sendMetric_ok)

lemmas health_descs =
  netatmoUpDesc_def refreshIntervalDesc_def refreshTimestampDesc_def refreshDurationDesc_def
  cacheTimestampDesc_def

lemma Collect_mChan:
  "\<exists>xs. mChan (snd (Collect V c w)) = mChan w @ selfHealth c @ xs \<and>
        (case cachedData c of None \<Rightarrow> xs = []
         | Some dc \<Rightarrow> list_all (labelled_by_leaf_of (Devices dc)) xs)"
proof -
  define w2 where "w2 = statements
      [sendMetric V netatmoUpDesc GaugeValue (upValue c) [],
       sendMetric V refreshIntervalDesc GaugeValue (Seconds (RefreshInterval c)) [],
       sendMetric V refreshTimestampDesc GaugeValue (convertTime (lastRefresh c)) [],
       sendMetric V refreshDurationDesc GaugeValue (Seconds (lastRefreshDuration c)) [],
       sendMetric V cacheTimestampDesc GaugeValue (convertTime (cacheTimestamp c)) []]
      (snd (read_clock c w))"
  have vl: "variableLabels netatmoUpDesc = []" "variableLabels refreshIntervalDesc = []"
    "variableLabels refreshTimestampDesc = []" "variableLabels refreshDurationDesc = []"
    "variableLabels cacheTimestampDesc = []"
    by (simp_all add: health_descs NewDesc_def)
  have w2: "mChan w2 = mChan w @ selfHealth c"
    by (simp add: w2_def sendMetric_no_labels vl selfHealth_def read_clock_def)
  have snd: "snd (Collect V c w) =
      (case cachedData c of None \<Rightarrow> w2 | Some dc \<Rightarrow> collectDevices V c (Devices dc) w2)"
    by (cases "cachedData c")
      (simp_all add: Collect_def w2_def case_prod_beta Let_def del: statements.simps)
  show ?thesis
  proof (cases "cachedData c")
    case None
    with snd w2 show ?thesis by simp
  next
    case (Some dc)
    from appends_collectDevices [of "Devices dc" V c]
    obtain xs where "mChan (collectDevices V c (Devices dc) w2) = mChan w2 @ xs"
      and "list_all (labelled_by_leaf_of (Devices dc)) xs"
      unfolding appends_def by blast
    with snd w2 Some show ?thesis by simp
  qed
qed

lemma upValue_refreshes:
  assumes "\<forall>ev\<in>set evs. \<not> IsZero (fst ev)"
  shows "upValue (fst (refreshes (New clk ri st) evs w)) =
     (if evs \<noteq> [] \<and> succeeded (last evs) then float64_of_int 1 else float64_of_int 0)"
proof (cases evs rule: rev_cases)
  case Nil
  then show ?thesis by (simp add: upValue_def New_def IsZero_def)
next
  case (snoc evs' ev)
  obtain now devices err where ev: "ev = (now, devices, err)" by (cases ev) auto
  from assms snoc ev have "\<not> IsZero now" by simp
  then show ?thesis
    by (simp add: snoc ev refreshes_snoc upValue_def RefreshData_lastRefresh
        RefreshData_lastRefreshError succeeded_def)
qed

lemma lastRefreshError_refreshes:
  "lastRefreshError (fst (refreshes (New clk ri st) evs w)) =
     (if evs = [] then None else snd (snd (last evs)))"
proof (cases evs rule: rev_cases)
  case Nil
  then show ?thesis by (simp add: New_def)
next
  case (snoc evs' ev)
  obtain now devices err where ev: "ev = (now, devices, err)" by (cases ev) auto
  show ?thesis
    by (simp add: snoc ev refreshes_snoc RefreshData_lastRefreshError)
qed

lemma upValue_during_fetch:
  assumes "\<not> IsZero now"
  shows "upValue ((fst (refreshes (New clk ri st) evs w))\<lparr>lastRefresh := now\<rparr>) =
     (if evs = [] \<or> succeeded (last evs) then float64_of_int 1 else float64_of_int 0)"
  using assms by (simp add: upValue_def lastRefreshError_refreshes succeeded_def)

section \<open>The metrics of a leaf whose labels are accepted\<close>

lemma variableLabels_descs:
  "variableLabels netatmoUpDesc = []" "variableLabels refreshIntervalDesc = []"
  "variableLabels refreshTimestampDesc = []" "variableLabels refreshDurationDesc = []"
  "variableLabels cacheTimestampDesc = []"
  "variableLabels updatedDesc = varLabels" "variableLabels tempDesc = varLabels"
  "variableLabels humidityDesc = varLabels" "variableLabels cotwoDesc = varLabels"
  "variableLabels noiseDesc = varLabels" "variableLabels pressureDesc = varLabels"
  "variableLabels windStrengthDesc = varLabels" "variableLabels windDirectionDesc = varLabels"
  "variableLabels rainDesc = varLabels" "variableLabels batteryDesc = varLabels"
  "variableLabels wifiDesc = varLabels" "variableLabels rfDesc = varLabels"
  "variableLabels absolutePressureDesc = varLabels"
  "variableLabels lastMeasureUtcDesc = varLabels" "variableLabels healthIndexDesc = varLabels"
  by (simp_all add: health_descs sensor_descs NewDesc_def)

lemma appender_Nil: "appender [] = (\<lambda>w. w)"
  by (simp add: appender_def fun_eq_iff)

lemma appender_appender: "appender ys (appender xs w) = appender (xs @ ys) w"
  by (simp add: appender_def)

lemma sendMetric_appender:
  "length lvs = length (variableLabels d) \<Longrightarrow> list_all V lvs \<Longrightarrow>
   sendMetric V d vt v lvs = appender [\<lparr>desc = d, valueType = vt, val = v, labelValues = lvs\<rparr>]"
  by (simp add: sendMetric_def NewConstMetric_def appender_def fun_eq_iff)

lemma if_not_nil_appender: "if_not_nil p (\<lambda>x. appender [g x]) = appender (optional p g)"
  by (cases p) (simp_all add: if_not_nil_def optional_def appender_def fun_eq_iff)

lemma collectData_eq:
  assumes "V (moduleName device)" and "V s"
  shows "collectData V c device s w =
     (case LastMeasure (DashboardData device) of
        None \<Rightarrow> log_line Debug_No_data_available w
      | Some lm \<Rightarrow>
          if sint (StaleThreshold c) < sint (Sub (clock c (ticks w)) (time_Unix (sint lm) 0))
          then log_line (Debug_Data_is_stale (moduleName device)
                 (Sub (clock c (ticks w)) (time_Unix (sint lm) 0)) (StaleThreshold c))
                 (w\<lparr>ticks := Suc (ticks w)\<rparr>)
          else appender (leafMetrics device s lm) (w\<lparr>ticks := Suc (ticks w)\<rparr>))"
proof (cases "LastMeasure (DashboardData device)")
  case None
  then show ?thesis by (simp add: collectData_def)
next
  case (Some lm)
  have len: "length [moduleName device, s] = length varLabels"
    by (simp add: varLabels_def)
  have send: "sendMetric V d GaugeValue v [moduleName device, s] =
      appender [\<lparr>desc = d, valueType = GaugeValue, val = v,
                 labelValues = [moduleName device, s]\<rparr>]"
    if "variableLabels d = varLabels" for d v
    using that assms len by (intro sendMetric_appender) simp_all
  show ?thesis
    unfolding collectData_def Let_def read_clock_def
    by (simp add: Some send variableLabels_descs if_not_nil_appender appender_appender
        leafMetrics_def Let_def Unix_time_Unix optional_def [of "Some lm"])
qed


lemma snd_Collect:
  "snd (Collect V c w) =
     (case cachedData c of
        None \<Rightarrow> appender (selfHealth c) (w\<lparr>ticks := Suc (ticks w)\<rparr>)
      | Some dc \<Rightarrow> collectDevices V c (Devices dc)
          (appender (selfHealth c) (w\<lparr>ticks := Suc (ticks w)\<rparr>)))"
  by (cases "cachedData c")
    (simp_all add: Collect_def case_prod_beta Let_def read_clock_def sendMetric_appender
      variableLabels_descs appender_appender selfHealth_def)

lemma length_optional: "length (optional p g) \<le> Suc 0"
  by (simp add: optional_def split: option.splits)

lemma length_concat_le: "(\<And>xs. xs \<in> set xss \<Longrightarrow> length xs \<le> Suc 0) \<Longrightarrow> length (concat xss) \<le> length xss"
proof (induction xss)
  case Nil
  show ?case by simp
next
  case (Cons a xss)
  have "length a \<le> Suc 0" by (rule Cons.prems) simp
  moreover have "length (concat xss) \<le> length xss"
    by (rule Cons.IH) (simp add: Cons.prems)
  ultimately show ?case by simp
qed

lemma length_leafMetrics:
  "2 \<le> length (leafMetrics device s lm) \<and> length (leafMetrics device s lm) \<le> 15"
proof -
  have "length (concat xss) \<le> 13"
    if "length xss = 13" and "\<And>xs. xs \<in> set xss \<Longrightarrow> length xs \<le> Suc 0" for xss :: "Metric list list"
    using length_concat_le [of xss] that by simp
  note bound = this
  show ?thesis
    unfolding leafMetrics_def Let_def
    apply (simp del: concat.simps)
    apply (rule bound)
     apply simp
    apply (auto simp: length_optional)
    done
qed

section \<open>The staleness policy and the metrics of one leaf\<close>

lemma collectData_emitted_Nil_iff:
  assumes "V (moduleName device)" and "V s"
  shows "(emitted w (collectData V c device s w) \<noteq> []) =
     (case LastMeasure (DashboardData device) of
        None \<Rightarrow> False
      | Some lm \<Rightarrow>
          sint (Sub (clock c (ticks w)) (time_Unix (sint lm) 0)) \<le> sint (StaleThreshold c))"
proof (cases "LastMeasure (DashboardData device)")
  case None
  then show ?thesis by (simp add: emitted_def collectData_none)
next
  case (Some lm)
  show ?thesis
  proof (cases "sint (Sub (clock c (ticks w)) (time_Unix (sint lm) 0)) \<le> sint (StaleThreshold c)")
    case True
    from collectData_fresh [OF Some True assms]
    obtain xs where "emitted w (collectData V c device s w) \<noteq> []"
      by (auto simp: emitted_def)
    with Some True show ?thesis by simp
  next
    case False
    with Some show ?thesis by (simp add: emitted_def collectData_stale)
  qed
qed

lemma emitted_same_start: "mChan w1 = mChan w \<Longrightarrow> emitted w1 w' = emitted w w'"
  by (simp add: emitted_def)

lemma collectData_emitted_Nil:
  "emitted w (collectData V c device s w) = [] \<Longrightarrow> mChan (collectData V c device s w) = mChan w"
proof -
  assume e: "emitted w (collectData V c device s w) = []"
  from appends_collectData [of device s V c]
  obtain xs where xs: "mChan (collectData V c device s w) = mChan w @ xs"
    unfolding appends_def by blast
  then have "emitted w (collectData V c device s w) = xs" by (rule emitted_append)
  with e xs show ?thesis by simp
qed

text \<open>
  C2. Let \<open>collectData\<close> process a leaf whose labels the metric constructor accepts, and let
  \<open>now\<close> be the clock reading it takes. Metrics of the leaf are emitted if and only if
  \<^verbatim>\<open>LastMeasure\<close> is present and the age \<^verbatim>\<open>now.Sub(time.Unix(*LastMeasure, 0))\<close> is at most
  the stale threshold; an age equal to the threshold is emitted. As long as the difference of
  the two instants does not exceed the largest duration, the age is that difference. A leaf that
  is skipped adds nothing to the channel, and the loops over the linked modules and over the
  devices go on: what they emit for the skipped leaf and the leaves after it is what they
  emit for the leaves after it.
\<close>

theorem collectData_staleness_policy:
  assumes "ValidString (moduleName device)" and "ValidString stationName"
  shows "(emitted w (collectData ValidString c device stationName w) \<noteq> []) =
           (case LastMeasure (DashboardData device) of
              None \<Rightarrow> False
            | Some lm \<Rightarrow>
                sint (Sub (clock c (ticks w)) (time_Unix (sint lm) 0)) \<le> sint (StaleThreshold c))
         \<and> (case LastMeasure (DashboardData device) of
              None \<Rightarrow> True
            | Some lm \<Rightarrow>
                clock c (ticks w) - time_Unix (sint lm) 0 \<le> maxDuration \<longrightarrow>
                (emitted w (collectData ValidString c device stationName w) \<noteq> []) =
                (clock c (ticks w) - time_Unix (sint lm) 0 \<le> sint (StaleThreshold c)))
         \<and> (emitted w (collectData ValidString c device stationName w) = [] \<longrightarrow>
              emitted w (collectModules ValidString c stationName (device # modules) w) =
              emitted (collectData ValidString c device stationName w)
                (collectModules ValidString c stationName modules
                   (collectData ValidString c device stationName w)))
         \<and> (emitted w (collectData ValidString c device (StationName device) w) = [] \<longrightarrow>
              emitted w (collectDevices ValidString c (device # devices) w) =
              emitted (collectData ValidString c device (StationName device) w)
                (collectDevices ValidString c devices
                   (collectModules ValidString c (StationName device) (LinkedModules device)
                      (collectData ValidString c device (StationName device) w))))"
proof (intro conjI)
  show iff: "(emitted w (collectData ValidString c device stationName w) \<noteq> []) =
      (case LastMeasure (DashboardData device) of
         None \<Rightarrow> False
       | Some lm \<Rightarrow>
           sint (Sub (clock c (ticks w)) (time_Unix (sint lm) 0)) \<le> sint (StaleThreshold c))"
    by (rule collectData_emitted_Nil_iff [OF assms])
  show "case LastMeasure (DashboardData device) of
      None \<Rightarrow> True
    | Some lm \<Rightarrow>
        clock c (ticks w) - time_Unix (sint lm) 0 \<le> maxDuration \<longrightarrow>
        (emitted w (collectData ValidString c device stationName w) \<noteq> []) =
        (clock c (ticks w) - time_Unix (sint lm) 0 \<le> sint (StaleThreshold c))"
    using iff by (simp add: sint_Sub_le_iff split: option.splits)
  show "emitted w (collectData ValidString c device stationName w) = [] \<longrightarrow>
      emitted w (collectModules ValidString c stationName (device # modules) w) =
      emitted (collectData ValidString c device stationName w)
        (collectModules ValidString c stationName modules
           (collectData ValidString c device stationName w))"
    by (auto dest!: collectData_emitted_Nil intro: emitted_same_start [symmetric])
  show "emitted w (collectData ValidString c device (StationName device) w) = [] \<longrightarrow>
      emitted w (collectDevices ValidString c (device # devices) w) =
      emitted (collectData ValidString c device (StationName device) w)
        (collectDevices ValidString c devices
           (collectModules ValidString c (StationName device) (LinkedModules device)
              (collectData ValidString c device (StationName device) w)))"
    by (auto simp: Let_def dest!: collectData_emitted_Nil intro: emitted_same_start [symmetric])
qed

theorem collectData_staleness_policy_witness:
  "ascii (moduleName outdoor) \<and> ascii ''Home''
   \<and> sint (Sub (clock example_collector 0) (time_Unix 1700000000 0)) =
       sint (StaleThreshold example_collector)
   \<and> emitted example_world (collectData ascii example_collector outdoor ''Home'' example_world) \<noteq> []
   \<and> emitted (example_world\<lparr>ticks := 1\<rparr>)
        (collectData ascii example_collector outdoor ''Home'' (example_world\<lparr>ticks := 1\<rparr>)) = []
   \<and> emitted (example_world\<lparr>ticks := 1\<rparr>)
        (collectModules ascii example_collector ''Home'' [outdoor, bare] (example_world\<lparr>ticks := 1\<rparr>)) =
      emitted (collectData ascii example_collector outdoor ''Home'' (example_world\<lparr>ticks := 1\<rparr>))
        (collectModules ascii example_collector ''Home'' [bare]
           (collectData ascii example_collector outdoor ''Home'' (example_world\<lparr>ticks := 1\<rparr>)))"
proof -
  have valid: "ascii (moduleName outdoor)" "ascii ''Home''"
    by (simp_all add: ascii_def moduleName_def outdoor_def)
  have age: "sint (Sub (clock example_collector 0) (time_Unix 1700000000 0)) =
      sint (StaleThreshold example_collector)"
    by (simp add: sint_Sub example_collector_def New_def example_clock_def time_Unix_def
        minDuration_def maxDuration_def)
  have age': "sint (Sub (clock example_collector 1) (time_Unix 1700000000 0)) >
      sint (StaleThreshold example_collector)"
    by (simp add: sint_Sub example_collector_def New_def example_clock_def time_Unix_def
        minDuration_def maxDuration_def)
  have lm: "LastMeasure (DashboardData outdoor) = Some 1700000000"
    by (simp add: outdoor_def no_readings_def)
  from collectData_staleness_policy [OF valid, of example_world example_collector "[bare]"]
    collectData_staleness_policy [OF valid, of "example_world\<lparr>ticks := 1\<rparr>" example_collector "[bare]"]
  show ?thesis using valid age age' lm
    by (simp add: example_world_def)
qed


lemma collectData_bare:
  assumes lm: "LastMeasure (DashboardData device) = Some lm"
    and fresh: "sint (Sub (clock c (ticks w)) (time_Unix (sint lm) 0)) \<le> sint (StaleThreshold c)"
    and absent: "Temperature (DashboardData device) = None" "Humidity (DashboardData device) = None"
      "CO2 (DashboardData device) = None" "Noise (DashboardData device) = None"
      "Pressure (DashboardData device) = None" "AbsolutePressure (DashboardData device) = None"
      "WindStrength (DashboardData device) = None" "WindAngle (DashboardData device) = None"
      "Rain (DashboardData device) = None" "HealthIdx (DashboardData device) = None"
      "BatteryPercent device = None" "WifiStatus device = None" "RFStatus device = None"
    and valid: "V (moduleName device)" "V s"
  shows "mChan (collectData V c device s w) =
     mChan w @
     [\<lparr>desc = updatedDesc, valueType = GaugeValue, val = float64_of_int (sint lm),
       labelValues = [moduleName device, s]\<rparr>,
      \<lparr>desc = lastMeasureUtcDesc, valueType = GaugeValue, val = float64_of_int (sint lm),
       labelValues = [moduleName device, s]\<rparr>]"
proof -
  have vl: "variableLabels updatedDesc = varLabels" "variableLabels lastMeasureUtcDesc = varLabels"
    by (simp_all add: updatedDesc_def lastMeasureUtcDesc_def NewDesc_def)
  have len: "length varLabels = 2" by (simp add: varLabels_def)
  show ?thesis
    using lm fresh
    by (simp add: collectData_def read_clock_def absent if_not_nil_def sendMetric_ok vl len valid
        Unix_time_Unix)
qed

text \<open>
  C8 (as the code has it). A leaf whose \<^verbatim>\<open>LastMeasure\<close> is present and within the stale
  threshold, whose optional values (temperature, humidity, CO2, noise, pressure, absolute
  pressure, wind strength, wind angle, rain, health index, battery, WiFi, RF) are all
  absent, and whose labels the metric constructor accepts, emits exactly two metrics: the
  \<^verbatim>\<open>updated\<close> gauge and the \<^verbatim>\<open>last_measure_utc\<close> gauge, both with the measuring time,
  and no metric of a sensor.
\<close>

theorem collectData_only_timestamps:
  assumes "LastMeasure (DashboardData device) = Some lm"
    and "sint (Sub (clock c (ticks w)) (time_Unix (sint lm) 0)) \<le> sint (StaleThreshold c)"
    and "Temperature (DashboardData device) = None" and "Humidity (DashboardData device) = None"
    and "CO2 (DashboardData device) = None" and "Noise (DashboardData device) = None"
    and "Pressure (DashboardData device) = None" and "AbsolutePressure (DashboardData device) = None"
    and "WindStrength (DashboardData device) = None" and "WindAngle (DashboardData device) = None"
    and "Rain (DashboardData device) = None" and "HealthIdx (DashboardData device) = None"
    and "BatteryPercent device = None" and "WifiStatus device = None"
    and "RFStatus device = None"
    and "ValidString (moduleName device)" and "ValidString stationName"
  shows "emitted w (collectData ValidString c device stationName w) =
     [\<lparr>desc = updatedDesc, valueType = GaugeValue, val = float64_of_int (sint lm),
       labelValues = [moduleName device, stationName]\<rparr>,
      \<lparr>desc = lastMeasureUtcDesc, valueType = GaugeValue, val = float64_of_int (sint lm),
       labelValues = [moduleName device, stationName]\<rparr>]"
  by (rule emitted_append) (rule collectData_bare [OF assms])

lemma bare_emitted:
  "emitted example_world (collectData ascii example_collector bare ''Home'' example_world) =
     [\<lparr>desc = updatedDesc, valueType = GaugeValue, val = float64_of_int 1700000200,
       labelValues = [''Bare'', ''Home'']\<rparr>,
      \<lparr>desc = lastMeasureUtcDesc, valueType = GaugeValue, val = float64_of_int 1700000200,
       labelValues = [''Bare'', ''Home'']\<rparr>]"
  by (simp add: emitted_def example_world_def example_collector_def New_def example_clock_def
      bare_def no_readings_def collectData_def read_clock_def if_not_nil_def sendMetric_def
      NewConstMetric_def moduleName_def ascii_def sint_Sub time_Unix_def Unix_def UTC_def
      minDuration_def maxDuration_def unixToInternal_def updatedDesc_def lastMeasureUtcDesc_def
      NewDesc_def varLabels_def)

text \<open>
  The module \<open>bare\<close> reports its measuring time only, 100 s before the clock reading. The
  \<^verbatim>\<open>updated\<close> gauge is not all that is emitted for it: the \<^verbatim>\<open>last_measure_utc\<close> gauge
  is emitted as well.
\<close>

theorem only_updated_counterexample:
  "LastMeasure (DashboardData bare) = Some 1700000200
   \<and> sint (Sub (clock example_collector (ticks example_world)) (time_Unix 1700000200 0))
       \<le> sint (StaleThreshold example_collector)
   \<and> emitted example_world (collectData ascii example_collector bare ''Home'' example_world) \<noteq>
      [\<lparr>desc = updatedDesc, valueType = GaugeValue, val = float64_of_int 1700000200,
        labelValues = [''Bare'', ''Home'']\<rparr>]
   \<and> \<lparr>desc = lastMeasureUtcDesc, valueType = GaugeValue, val = float64_of_int 1700000200,
        labelValues = [''Bare'', ''Home'']\<rparr>
       \<in> set (emitted example_world
               (collectData ascii example_collector bare ''Home'' example_world))"
  by (simp add: bare_emitted)
    (simp add: bare_def no_readings_def example_world_def example_collector_def New_def
      example_clock_def sint_Sub time_Unix_def minDuration_def maxDuration_def)


theorem collectData_only_timestamps_witness:
  "LastMeasure (DashboardData bare) = Some 1700000200
   \<and> sint (Sub (clock example_collector (ticks example_world)) (time_Unix (sint (1700000200 :: 64 word)) 0))
       \<le> sint (StaleThreshold example_collector)
   \<and> Temperature (DashboardData bare) = None \<and> Humidity (DashboardData bare) = None
   \<and> CO2 (DashboardData bare) = None \<and> Noise (DashboardData bare) = None
   \<and> Pressure (DashboardData bare) = None \<and> AbsolutePressure (DashboardData bare) = None
   \<and> WindStrength (DashboardData bare) = None \<and> WindAngle (DashboardData bare) = None
   \<and> Rain (DashboardData bare) = None \<and> HealthIdx (DashboardData bare) = None
   \<and> BatteryPercent bare = None \<and> WifiStatus bare = None \<and> RFStatus bare = None
   \<and> ascii (moduleName bare) \<and> ascii ''Home''
   \<and> emitted example_world (collectData ascii example_collector bare ''Home'' example_world) =
     [\<lparr>desc = updatedDesc, valueType = GaugeValue, val = float64_of_int 1700000200,
       labelValues = [''Bare'', ''Home'']\<rparr>,
      \<lparr>desc = lastMeasureUtcDesc, valueType = GaugeValue, val = float64_of_int 1700000200,
       labelValues = [''Bare'', ''Home'']\<rparr>]"
proof -
  have lm: "LastMeasure (DashboardData bare) = Some 1700000200"
    and absent: "Temperature (DashboardData bare) = None" "Humidity (DashboardData bare) = None"
      "CO2 (DashboardData bare) = None" "Noise (DashboardData bare) = None"
      "Pressure (DashboardData bare) = None" "AbsolutePressure (DashboardData bare) = None"
      "WindStrength (DashboardData bare) = None" "WindAngle (DashboardData bare) = None"
      "Rain (DashboardData bare) = None" "HealthIdx (DashboardData bare) = None"
      "BatteryPercent bare = None" "WifiStatus bare = None" "RFStatus bare = None"
    by (simp_all add: bare_def no_readings_def)
  have fresh: "sint (Sub (clock example_collector (ticks example_world))
        (time_Unix (sint (1700000200 :: 64 word)) 0)) \<le> sint (StaleThreshold example_collector)"
    by (simp add: example_world_def example_collector_def New_def example_clock_def sint_Sub
        time_Unix_def minDuration_def maxDuration_def)
  have valid: "ascii (moduleName bare)" "ascii ''Home''"
    by (simp_all add: ascii_def moduleName_def bare_def)
  have name: "moduleName bare = ''Bare''"
    by (simp add: moduleName_def bare_def)
  from collectData_only_timestamps [OF lm fresh absent valid]
  show ?thesis using lm fresh absent valid by (simp add: name)
qed

lemma perLeafDescs_eq:
  "perLeafDescs =
     [updatedDesc, tempDesc, humidityDesc, cotwoDesc, noiseDesc, pressureDesc, windStrengthDesc,
      windDirectionDesc, rainDesc, batteryDesc, wifiDesc, rfDesc, absolutePressureDesc,
      lastMeasureUtcDesc, healthIndexDesc]"
  by (simp add: perLeafDescs_def Describe_def sensor_descs health_descs NewDesc_def varLabels_def)

lemma perLeafDescs_names:
  "map fqName perLeafDescs =
     [''netatmo_aircare_updated'', ''netatmo_aircare_temperature_celsius'',
      ''netatmo_aircare_humidity_percent'', ''netatmo_aircare_co2_ppm'',
      ''netatmo_aircare_noise_db'', ''netatmo_aircare_pressure_mb'',
      ''netatmo_aircare_wind_strength_kph'', ''netatmo_aircare_wind_direction_degrees'',
      ''netatmo_aircare_rain_amount_mm'', ''netatmo_aircare_battery_percent'',
      ''netatmo_aircare_wifi_signal_strength'', ''netatmo_aircare_rf_signal_strength'',
      ''netatmo_aircare_absolute_pressure'', ''netatmo_aircare_last_measure_utc'',
      ''netatmo_aircare_health_index'']"
  by (simp add: perLeafDescs_eq sensor_descs NewDesc_def sensorPrefix_def prefix_def)

lemma perLeafDescs_spec:
  "set (map fqName perLeafDescs) =
     insert ''netatmo_aircare_last_measure_utc'' (set spec_schema_per_leaf)
   \<and> ''netatmo_aircare_last_measure_utc'' \<notin> set spec_schema_per_leaf
   \<and> length spec_schema_per_leaf = 14 \<and> length perLeafDescs = 15"
  unfolding perLeafDescs_names
  by (auto simp add: spec_schema_per_leaf_def perLeafDescs_eq)

text \<open>
  C10 (as the code has it). For a leaf that passes the staleness policy and whose labels the
  metric constructor accepts, \<open>collectData\<close> emits the \<^verbatim>\<open>updated\<close> gauge first and the
  gauge \<^verbatim>\<open>netatmo_aircare_last_measure_utc\<close> last; the latter carries the
  \<^verbatim>\<open>LastMeasure\<close> value itself and the same module and station labels. Such a leaf
  emits at least two metrics and at most fifteen. The descriptor is one of the fifteen with
  these labels that
  \<open>Describe\<close> announces, and its name is not among the fourteen of the schema of the
  specification.
\<close>

theorem collectData_last_measure_utc:
  assumes "LastMeasure (DashboardData device) = Some lm"
    and "sint (Sub (clock c (ticks w)) (time_Unix (sint lm) 0)) \<le> sint (StaleThreshold c)"
    and "ValidString (moduleName device)" and "ValidString stationName"
  shows "(\<exists>xs. emitted w (collectData ValidString c device stationName w) =
            \<lparr>desc = updatedDesc, valueType = GaugeValue, val = float64_of_int (sint lm),
              labelValues = [moduleName device, stationName]\<rparr> # xs @
            [\<lparr>desc = lastMeasureUtcDesc, valueType = GaugeValue, val = float64_of_int (sint lm),
              labelValues = [moduleName device, stationName]\<rparr>])
         \<and> 2 \<le> length (emitted w (collectData ValidString c device stationName w))
         \<and> length (emitted w (collectData ValidString c device stationName w)) \<le> 15
         \<and> fqName lastMeasureUtcDesc = ''netatmo_aircare_last_measure_utc''
         \<and> variableLabels lastMeasureUtcDesc = [''module'', ''station'']
         \<and> lastMeasureUtcDesc \<in> set perLeafDescs
         \<and> length perLeafDescs = 15
         \<and> fqName lastMeasureUtcDesc \<notin> set spec_schema_per_leaf"
proof -
  from collectData_fresh [OF assms]
  obtain xs where "mChan (collectData ValidString c device stationName w) =
      mChan w @
      \<lparr>desc = updatedDesc, valueType = GaugeValue, val = float64_of_int (sint lm),
        labelValues = [moduleName device, stationName]\<rparr> # xs @
      [\<lparr>desc = lastMeasureUtcDesc, valueType = GaugeValue, val = float64_of_int (sint lm),
        labelValues = [moduleName device, stationName]\<rparr>]"
    by blast
  then have e: "emitted w (collectData ValidString c device stationName w) =
      \<lparr>desc = updatedDesc, valueType = GaugeValue, val = float64_of_int (sint lm),
        labelValues = [moduleName device, stationName]\<rparr> # xs @
      [\<lparr>desc = lastMeasureUtcDesc, valueType = GaugeValue, val = float64_of_int (sint lm),
        labelValues = [moduleName device, stationName]\<rparr>]"
    by (rule emitted_append)
  have name: "fqName lastMeasureUtcDesc = ''netatmo_aircare_last_measure_utc''"
    "variableLabels lastMeasureUtcDesc = [''module'', ''station'']"
    by (simp_all add: lastMeasureUtcDesc_def NewDesc_def sensorPrefix_def prefix_def varLabels_def)
  have "lastMeasureUtcDesc \<in> set perLeafDescs"
    by (simp add: perLeafDescs_eq)
  moreover have "length (emitted w (collectData ValidString c device stationName w)) \<le> 15"
    using assms length_leafMetrics [of device stationName lm]
    by (simp add: collectData_eq emitted_def appender_def)
  ultimately show ?thesis using e name perLeafDescs_spec by auto
qed

text \<open>
  The descriptors with the module and station labels are not sixteen; the one of
  \<^verbatim>\<open>last_measure_utc\<close> is the fourteenth of the fifteen that \<open>Describe\<close> announces.
\<close>

theorem sixteenth_per_leaf_metric_counterexample:
  "\<not> length perLeafDescs = 16 \<and> perLeafDescs ! 13 = lastMeasureUtcDesc"
  by (simp add: perLeafDescs_eq)

section \<open>A scrape\<close>

lemma collectModules_fold:
  "collectModules V c s ms w = fold (\<lambda>(leaf, st). collectData V c leaf st) (map (\<lambda>m. (m, s)) ms) w"
  by (induction ms arbitrary: w) simp_all

lemma collectDevices_fold:
  "collectDevices V c devs w = fold (\<lambda>(leaf, st). collectData V c leaf st) (leaves devs) w"
  by (induction devs arbitrary: w) (simp_all add: leaves_def Let_def collectModules_fold)

lemma Collect_emitted:
  "\<exists>xs. emitted w (snd (Collect V c w)) = selfHealth c @ xs \<and>
        (case cachedData c of None \<Rightarrow> xs = []
         | Some dc \<Rightarrow> list_all (labelled_by_leaf_of (Devices dc)) xs)"
  using Collect_mChan [of V c w] by (auto simp: emitted_def)

lemma selfHealth_not_per_leaf: "m \<in> set (selfHealth c) \<Longrightarrow> variableLabels (desc m) = []"
  by (auto simp: selfHealth_def health_descs NewDesc_def)

lemma filter_up_selfHealth:
  "filter (\<lambda>m. desc m = netatmoUpDesc) (selfHealth c) =
     [\<lparr>desc = netatmoUpDesc, valueType = GaugeValue, val = upValue c, labelValues = []\<rparr>]"
  by (simp add: selfHealth_def health_descs NewDesc_def refreshPrefix_def prefix_def)

lemma filter_up_leaves:
  "list_all (labelled_by_leaf_of devs) xs \<Longrightarrow> filter (\<lambda>m. desc m = netatmoUpDesc) xs = []"
  by (auto simp: filter_empty_conv list_all_iff labelled_by_leaf_of_def leaf_labelled_def
      netatmoUpDesc_def NewDesc_def varLabels_def)

lemma Collect_up_metric:
  "filter (\<lambda>m. desc m = netatmoUpDesc) (emitted w (snd (Collect V c w))) =
     [\<lparr>desc = netatmoUpDesc, valueType = GaugeValue, val = upValue c, labelValues = []\<rparr>]"
proof -
  from Collect_emitted [of w V c]
  obtain xs where e: "emitted w (snd (Collect V c w)) = selfHealth c @ xs"
    and xs: "case cachedData c of None \<Rightarrow> xs = []
         | Some dc \<Rightarrow> list_all (labelled_by_leaf_of (Devices dc)) xs"
    by blast
  from xs have "filter (\<lambda>m. desc m = netatmoUpDesc) xs = []"
    by (cases "cachedData c") (simp_all add: filter_up_leaves)
  with e show ?thesis by (simp add: filter_up_selfHealth)
qed

text \<open>
  C1 (as the code has it). A scrape emits exactly one \<^verbatim>\<open>netatmo_up\<close> gauge. In every
  state of the collector its value is 1 if the last attempt time is not the zero time and no
  error is stored, and 0 otherwise. Take the collector that \<open>New\<close> returns and execute any
  sequence of refreshes on it, none of them at the zero time. Once they have ended, the
  value is 1 if a refresh of the sequence has succeeded and the last refresh of the sequence
  recorded no error, and 0 otherwise, that is when no refresh has been attempted, and when
  the last one failed, even after an earlier success. While a further refresh is calling
  the read function, the attempt time is recorded already and the stored error is still that
  of the refresh before: the value is then 1 if the last refresh of the sequence recorded no
  error or if there was none, so that it is 1 during the first fetch of all.
\<close>

theorem Collect_netatmo_up:
  assumes "\<forall>ev\<in>set evs. \<not> IsZero (fst ev)" and "\<not> IsZero now"
  shows "filter (\<lambda>m. desc m = netatmoUpDesc) (emitted w (snd (Collect ValidString c w))) =
         [\<lparr>desc = netatmoUpDesc, valueType = GaugeValue,
           val = (if \<not> IsZero (lastRefresh c) \<and> lastRefreshError c = None
                  then float64_of_int 1 else float64_of_int 0),
           labelValues = []\<rparr>]
       \<and> filter (\<lambda>m. desc m = netatmoUpDesc)
           (emitted w (snd (Collect ValidString
              (fst (refreshes (New clk refreshInterval staleDuration) evs w0)) w))) =
         [\<lparr>desc = netatmoUpDesc, valueType = GaugeValue,
           val = (if (\<exists>ev\<in>set evs. succeeded ev) \<and> evs \<noteq> [] \<and> succeeded (last evs)
                  then float64_of_int 1 else float64_of_int 0),
           labelValues = []\<rparr>]
       \<and> RefreshData (fst (refreshes (New clk refreshInterval staleDuration) evs w0)) now
           anyRead w1 =
         RefreshData (fst (refreshes (New clk refreshInterval staleDuration) evs w0)) now
           (\<lambda>observed. anyRead
              ((fst (refreshes (New clk refreshInterval staleDuration) evs w0))
                 \<lparr>lastRefresh := now\<rparr>))
           w1
       \<and> filter (\<lambda>m. desc m = netatmoUpDesc)
           (emitted w (snd (Collect ValidString
              ((fst (refreshes (New clk refreshInterval staleDuration) evs w0))
                 \<lparr>lastRefresh := now\<rparr>) w))) =
         [\<lparr>desc = netatmoUpDesc, valueType = GaugeValue,
           val = (if evs = [] \<or> succeeded (last evs)
                  then float64_of_int 1 else float64_of_int 0),
           labelValues = []\<rparr>]"
proof (intro conjI)
  have "upValue c =
      (if \<not> IsZero (lastRefresh c) \<and> lastRefreshError c = None
       then float64_of_int 1 else float64_of_int 0)"
    by (simp add: upValue_def)
  then show "filter (\<lambda>m. desc m = netatmoUpDesc) (emitted w (snd (Collect ValidString c w))) =
         [\<lparr>desc = netatmoUpDesc, valueType = GaugeValue,
           val = (if \<not> IsZero (lastRefresh c) \<and> lastRefreshError c = None
                  then float64_of_int 1 else float64_of_int 0),
           labelValues = []\<rparr>]"
    by (simp only: Collect_up_metric)
next
  have "(evs \<noteq> [] \<and> succeeded (last evs)) =
      ((\<exists>ev\<in>set evs. succeeded ev) \<and> evs \<noteq> [] \<and> succeeded (last evs))"
    using last_in_set [of evs] by blast
  with upValue_refreshes [OF assms(1), of clk refreshInterval staleDuration w0]
  show "filter (\<lambda>m. desc m = netatmoUpDesc)
           (emitted w (snd (Collect ValidString
              (fst (refreshes (New clk refreshInterval staleDuration) evs w0)) w))) =
         [\<lparr>desc = netatmoUpDesc, valueType = GaugeValue,
           val = (if (\<exists>ev\<in>set evs. succeeded ev) \<and> evs \<noteq> [] \<and> succeeded (last evs)
                  then float64_of_int 1 else float64_of_int 0),
           labelValues = []\<rparr>]"
    by (simp only: Collect_up_metric)
next
  show "RefreshData (fst (refreshes (New clk refreshInterval staleDuration) evs w0)) now
           anyRead w1 =
         RefreshData (fst (refreshes (New clk refreshInterval staleDuration) evs w0)) now
           (\<lambda>observed. anyRead
              ((fst (refreshes (New clk refreshInterval staleDuration) evs w0))
                 \<lparr>lastRefresh := now\<rparr>))
           w1"
    by (rule RefreshData_read_at_call)
next
  from upValue_during_fetch [OF assms(2), of clk refreshInterval staleDuration evs w0]
  show "filter (\<lambda>m. desc m = netatmoUpDesc)
           (emitted w (snd (Collect ValidString
              ((fst (refreshes (New clk refreshInterval staleDuration) evs w0))
                 \<lparr>lastRefresh := now\<rparr>) w))) =
         [\<lparr>desc = netatmoUpDesc, valueType = GaugeValue,
           val = (if evs = [] \<or> succeeded (last evs)
                  then float64_of_int 1 else float64_of_int 0),
           labelValues = []\<rparr>]"
    by (simp only: Collect_up_metric)
qed

theorem Collect_netatmo_up_witness:
  "\<not> IsZero (time_Unix 1700000000 0) \<and> \<not> IsZero (time_Unix 1700000060 0)
   \<and> \<not> IsZero (time_Unix 1700000120 0)
   \<and> filter (\<lambda>m. desc m = netatmoUpDesc)
        (emitted example_world (snd (Collect ascii
           (fst (refreshes example_collector
              [(time_Unix 1700000000 0, None, Some ''timeout''),
               (time_Unix 1700000060 0, Some \<lparr>Devices = [station]\<rparr>, None)]
              example_world))
           example_world))) =
      [\<lparr>desc = netatmoUpDesc, valueType = GaugeValue, val = float64_of_int 1, labelValues = []\<rparr>]
   \<and> filter (\<lambda>m. desc m = netatmoUpDesc)
        (emitted example_world (snd (Collect ascii
           ((fst (refreshes example_collector
              [(time_Unix 1700000000 0, None, Some ''timeout'')]
              example_world))\<lparr>lastRefresh := time_Unix 1700000060 0\<rparr>)
           example_world))) =
      [\<lparr>desc = netatmoUpDesc, valueType = GaugeValue, val = float64_of_int 0, labelValues = []\<rparr>]
   \<and> filter (\<lambda>m. desc m = netatmoUpDesc)
        (emitted example_world (snd (Collect ascii
           (fst (refreshes example_collector
              [(time_Unix 1700000000 0, None, Some ''timeout''),
               (time_Unix 1700000060 0, Some \<lparr>Devices = [station]\<rparr>, None),
               (time_Unix 1700000120 0, None, Some ''timeout'')]
              example_world))
           example_world))) =
      [\<lparr>desc = netatmoUpDesc, valueType = GaugeValue, val = float64_of_int 0, labelValues = []\<rparr>]"
proof -
  have nz: "\<not> IsZero (time_Unix 1700000000 0)" "\<not> IsZero (time_Unix 1700000060 0)"
    "\<not> IsZero (time_Unix 1700000120 0)"
    by (simp_all add: IsZero_def time_Unix_def unixToInternal_def)
  from Collect_netatmo_up
    [where evs = "[(time_Unix 1700000000 0, None, Some ''timeout''),
          (time_Unix 1700000060 0, Some \<lparr>Devices = [station]\<rparr>, None)]"
       and w = example_world and ValidString = ascii and clk = example_clock
       and refreshInterval = 60000000000 and staleDuration = 300000000000
       and ?w0.0 = example_world and c = example_collector
       and now = "time_Unix 1700000120 0"]
    Collect_netatmo_up
    [where evs = "[(time_Unix 1700000000 0, None, Some ''timeout'')]"
       and w = example_world and ValidString = ascii and clk = example_clock
       and refreshInterval = 60000000000 and staleDuration = 300000000000
       and ?w0.0 = example_world and c = example_collector
       and now = "time_Unix 1700000060 0"]
    Collect_netatmo_up
    [where evs = "[(time_Unix 1700000000 0, None, Some ''timeout''),
          (time_Unix 1700000060 0, Some \<lparr>Devices = [station]\<rparr>, None),
          (time_Unix 1700000120 0, None, Some ''timeout'')]"
       and w = example_world and ValidString = ascii and clk = example_clock
       and refreshInterval = 60000000000 and staleDuration = 300000000000
       and ?w0.0 = example_world and c = example_collector
       and now = "time_Unix 1700000120 0"]
  show ?thesis using nz
    by (simp add: succeeded_def example_collector_def del: refreshes.simps)
qed

text \<open>
  No refresh has ended on the collector that \<open>New\<close> returns, and none has succeeded. While
  its first refresh is calling the read function, its attempt time is recorded and no error
  is stored: a scrape of the collector in that state emits \<^verbatim>\<open>netatmo_up\<close> with the value 1,
  and a read function that looks at the value the scrape would emit finds 1.
\<close>

theorem netatmo_up_during_first_fetch_counterexample:
  "cachedData (example_collector\<lparr>lastRefresh := time_Unix 1700000300 0\<rparr>) = None
   \<and> filter (\<lambda>m. desc m = netatmoUpDesc)
        (emitted example_world (snd (Collect ascii
           (example_collector\<lparr>lastRefresh := time_Unix 1700000300 0\<rparr>) example_world))) =
      [\<lparr>desc = netatmoUpDesc, valueType = GaugeValue, val = float64_of_int 1, labelValues = []\<rparr>]
   \<and> lastRefreshError (fst (RefreshData example_collector (time_Unix 1700000300 0)
        (\<lambda>observed. (None, Some (if upValue observed = float64_of_int 1
                                   then ''netatmo_up is 1 during the first fetch''
                                   else ''netatmo_up is 0 during the first fetch'')))
        example_world)) =
      Some ''netatmo_up is 1 during the first fetch''"
  by (simp add: Collect_up_metric RefreshData_lastRefreshError)
    (simp add: upValue_def IsZero_def example_collector_def New_def time_Unix_def
      unixToInternal_def)

text \<open>
  C6. A scrape whose clock reading is \<open>now\<close> starts a refresh, with \<open>now\<close> as its attempt
  time, if and only if the duration \<^verbatim>\<open>now.Sub(lastRefresh)\<close> is at least the refresh
  interval. As long as the difference of the two instants is not below the smallest
  duration, that is if and only if the difference is at least the interval. When the last
  attempt time is the zero time, as before the first scrape, and the clock reads a time
  from 1 January 1970 on, a refresh is started whatever the interval.
\<close>

theorem Collect_refresh_trigger:
  "(fst (Collect ValidString c w) = Some (clock c (ticks w))) =
     (sint (RefreshInterval c) \<le> sint (Sub (clock c (ticks w)) (lastRefresh c)))
   \<and> (fst (Collect ValidString c w) = None) =
     (sint (Sub (clock c (ticks w)) (lastRefresh c)) < sint (RefreshInterval c))
   \<and> (minDuration \<le> clock c (ticks w) - lastRefresh c \<longrightarrow>
        (fst (Collect ValidString c w) = Some (clock c (ticks w))) =
        (sint (RefreshInterval c) \<le> clock c (ticks w) - lastRefresh c))
   \<and> (IsZero (lastRefresh c) \<and> time_Unix 0 0 \<le> clock c (ticks w) \<longrightarrow>
        fst (Collect ValidString c w) = Some (clock c (ticks w)))"
proof (intro conjI impI)
  show "(fst (Collect ValidString c w) = Some (clock c (ticks w))) =
      (sint (RefreshInterval c) \<le> sint (Sub (clock c (ticks w)) (lastRefresh c)))"
    by (simp add: Collect_started)
  show "(fst (Collect ValidString c w) = None) =
      (sint (Sub (clock c (ticks w)) (lastRefresh c)) < sint (RefreshInterval c))"
    by (auto simp: Collect_started)
  show "(fst (Collect ValidString c w) = Some (clock c (ticks w))) =
      (sint (RefreshInterval c) \<le> clock c (ticks w) - lastRefresh c)"
    if "minDuration \<le> clock c (ticks w) - lastRefresh c"
    using that by (simp add: Collect_started sint_Sub_ge_iff)
  show "fst (Collect ValidString c w) = Some (clock c (ticks w))"
    if first: "IsZero (lastRefresh c) \<and> time_Unix 0 0 \<le> clock c (ticks w)"
  proof -
    have "maxDuration \<le> time_Unix 0 0"
      by (simp add: time_Unix_def unixToInternal_def maxDuration_def)
    with first have "sint (Sub (clock c (ticks w)) (lastRefresh c)) = maxDuration"
      by (simp add: sint_Sub IsZero_def minDuration_def maxDuration_def)
    moreover have "sint (RefreshInterval c) \<le> maxDuration"
      using sint_less [of "RefreshInterval c"] by (simp add: maxDuration_def)
    ultimately show ?thesis by (simp add: Collect_started)
  qed
qed

theorem Collect_refresh_trigger_witness:
  "fst (Collect ascii (example_collector\<lparr>lastRefresh := time_Unix 1700000240 0\<rparr>) example_world) =
     Some (time_Unix 1700000300 0)
   \<and> fst (Collect ascii (example_collector\<lparr>lastRefresh := time_Unix 1700000241 0\<rparr>) example_world) =
     None
   \<and> IsZero (lastRefresh example_collector)
   \<and> time_Unix 0 0 \<le> clock example_collector (ticks example_world)
   \<and> fst (Collect ascii example_collector example_world) = Some (time_Unix 1700000300 0)"
proof -
  have now: "clock example_collector (ticks example_world) = time_Unix 1700000300 0"
    by (simp add: example_collector_def New_def example_clock_def example_world_def)
  have first: "IsZero (lastRefresh example_collector)"
    "time_Unix 0 0 \<le> clock example_collector (ticks example_world)"
    by (simp_all add: now) (simp_all add: example_collector_def New_def IsZero_def time_Unix_def)
  from Collect_refresh_trigger
      [of ascii "example_collector\<lparr>lastRefresh := time_Unix 1700000240 0\<rparr>" example_world]
    Collect_refresh_trigger
      [of ascii "example_collector\<lparr>lastRefresh := time_Unix 1700000241 0\<rparr>" example_world]
    Collect_refresh_trigger [of ascii example_collector example_world]
  show ?thesis using first
    by (simp add: now [simplified example_collector_def New_def]
        example_collector_def New_def example_world_def example_clock_def sint_Sub time_Unix_def
        minDuration_def maxDuration_def)
qed

text \<open>
  C9. When the collector has no cached device collection, a scrape emits the five gauges
  about the exporter itself, in this order, and nothing else: no metric whose name begins
  with \<^verbatim>\<open>netatmo_aircare_\<close>. The gauges of the last refresh time and of the cache time
  have the value 0 when the time they report is the zero time.
\<close>

theorem Collect_without_snapshot:
  assumes "cachedData c = None"
  shows "emitted w (snd (Collect ValidString c w)) =
     [\<lparr>desc = netatmoUpDesc, valueType = GaugeValue, val = upValue c, labelValues = []\<rparr>,
      \<lparr>desc = refreshIntervalDesc, valueType = GaugeValue, val = Seconds (RefreshInterval c),
       labelValues = []\<rparr>,
      \<lparr>desc = refreshTimestampDesc, valueType = GaugeValue, val = convertTime (lastRefresh c),
       labelValues = []\<rparr>,
      \<lparr>desc = refreshDurationDesc, valueType = GaugeValue, val = Seconds (lastRefreshDuration c),
       labelValues = []\<rparr>,
      \<lparr>desc = cacheTimestampDesc, valueType = GaugeValue, val = convertTime (cacheTimestamp c),
       labelValues = []\<rparr>]
   \<and> list_all (\<lambda>m. take (length sensorPrefix) (fqName (desc m)) \<noteq> sensorPrefix)
        (emitted w (snd (Collect ValidString c w)))
   \<and> (IsZero (lastRefresh c) \<longrightarrow> convertTime (lastRefresh c) = float64_of_int 0)
   \<and> (IsZero (cacheTimestamp c) \<longrightarrow> convertTime (cacheTimestamp c) = float64_of_int 0)"
proof -
  from Collect_emitted [of w ValidString c] assms
  have e: "emitted w (snd (Collect ValidString c w)) = selfHealth c" by auto
  have "list_all (\<lambda>m. take (length sensorPrefix) (fqName (desc m)) \<noteq> sensorPrefix) (selfHealth c)"
    by (simp add: selfHealth_def health_descs NewDesc_def sensorPrefix_def refreshPrefix_def
        prefix_def)
  with e show ?thesis by (simp add: selfHealth_def convertTime_def)
qed

theorem Collect_without_snapshot_witness:
  "cachedData example_collector = None
   \<and> IsZero (lastRefresh example_collector) \<and> IsZero (cacheTimestamp example_collector)
   \<and> emitted example_world (snd (Collect ascii example_collector example_world)) =
     [\<lparr>desc = netatmoUpDesc, valueType = GaugeValue, val = float64_of_int 0, labelValues = []\<rparr>,
      \<lparr>desc = refreshIntervalDesc, valueType = GaugeValue, val = Seconds 60000000000,
       labelValues = []\<rparr>,
      \<lparr>desc = refreshTimestampDesc, valueType = GaugeValue, val = float64_of_int 0,
       labelValues = []\<rparr>,
      \<lparr>desc = refreshDurationDesc, valueType = GaugeValue, val = Seconds 0, labelValues = []\<rparr>,
      \<lparr>desc = cacheTimestampDesc, valueType = GaugeValue, val = float64_of_int 0,
       labelValues = []\<rparr>]"
proof -
  have none: "cachedData example_collector = None"
    and zero: "IsZero (lastRefresh example_collector)" "IsZero (cacheTimestamp example_collector)"
    by (simp_all add: example_collector_def New_def IsZero_def)
  from Collect_without_snapshot [OF none, of example_world ascii]
  show ?thesis using none zero
    by (simp add: upValue_def) (simp add: example_collector_def New_def)
qed


lemma collectData_labels:
  "m \<in> set (emitted w (collectData V c leaf s w)) \<Longrightarrow> leaf_labelled leaf s m"
proof -
  assume m: "m \<in> set (emitted w (collectData V c leaf s w))"
  from appends_collectData [of leaf s V c]
  obtain xs where "mChan (collectData V c leaf s w) = mChan w @ xs"
    and xs: "list_all (leaf_labelled leaf s) xs"
    unfolding appends_def by blast
  then have "emitted w (collectData V c leaf s w) = xs" by (simp add: emitted_append)
  with m xs show ?thesis by (simp add: list_all_iff)
qed

lemma Collect_labels_aux:
  assumes dc: "cachedData c = Some dc"
    and m: "m \<in> set (emitted w (snd (Collect V c w)))"
    and per_leaf: "desc m \<in> set perLeafDescs"
  shows "labelled_by_leaf_of (Devices dc) m"
proof -
  from Collect_emitted [of w V c] dc
  obtain xs where e: "emitted w (snd (Collect V c w)) = selfHealth c @ xs"
    and xs: "list_all (labelled_by_leaf_of (Devices dc)) xs"
    by auto
  from per_leaf have "variableLabels (desc m) = varLabels"
    by (simp add: perLeafDescs_def)
  then have "m \<notin> set (selfHealth c)"
    by (auto dest: selfHealth_not_per_leaf simp: varLabels_def)
  with m e have "m \<in> set xs" by simp
  with xs show ?thesis by (simp add: list_all_iff)
qed

text \<open>
  C3. Every metric that \<open>collectData\<close> emits for a leaf has the labels \<^verbatim>\<open>module\<close> and
  \<^verbatim>\<open>station\<close>; the module label is the name of the leaf, its \<^verbatim>\<open>ModuleName\<close>, or
  \<^verbatim>\<open>id-\<close> followed by its \<^verbatim>\<open>ID\<close> when that name is empty, and the station label is the
  station name that \<open>collectData\<close> was called with. A scrape calls it for each device of the
  cached collection with the name of that device as a station, its \<^verbatim>\<open>StationName\<close>, and
  then for each linked module of the device with the \<^verbatim>\<open>StationName\<close> of the device again.
  So every per-sensor metric of a scrape carries the station name of a device of the
  collection, together with the module name of that device or of one of its linked modules.
\<close>

theorem Collect_module_and_station_labels:
  "(\<forall>m\<in>set (emitted w (collectData ValidString c leaf stationName w)).
      variableLabels (desc m) = [''module'', ''station'']
      \<and> labelValues m =
          [if ModuleName leaf = [] then ''id-'' @ ID leaf else ModuleName leaf, stationName])
   \<and> collectDevices ValidString c devs w =
       fold (\<lambda>(leaf, station). collectData ValidString c leaf station)
         (concat (map (\<lambda>dev. (dev, StationName dev) #
                              map (\<lambda>linked. (linked, StationName dev)) (LinkedModules dev))
                    devs))
         w
   \<and> (cachedData c = Some dc \<longrightarrow>
        (\<forall>m\<in>set (emitted w (snd (Collect ValidString c w))).
           desc m \<in> set perLeafDescs \<longrightarrow>
           (\<exists>dev\<in>set (Devices dc). \<exists>leaf\<in>set (dev # LinkedModules dev).
              variableLabels (desc m) = [''module'', ''station'']
              \<and> labelValues m =
                  [if ModuleName leaf = [] then ''id-'' @ ID leaf else ModuleName leaf,
                   StationName dev])))"
proof (intro conjI impI ballI)
  fix m
  assume "m \<in> set (emitted w (collectData ValidString c leaf stationName w))"
  then have "leaf_labelled leaf stationName m" by (rule collectData_labels)
  then show "variableLabels (desc m) = [''module'', ''station'']"
    and "labelValues m =
      [if ModuleName leaf = [] then ''id-'' @ ID leaf else ModuleName leaf, stationName]"
    by (simp_all add: leaf_labelled_def varLabels_def moduleName_def)
next
  show "collectDevices ValidString c devs w =
      fold (\<lambda>(leaf, station). collectData ValidString c leaf station)
        (concat (map (\<lambda>dev. (dev, StationName dev) #
                             map (\<lambda>linked. (linked, StationName dev)) (LinkedModules dev))
                   devs))
        w"
    by (simp add: collectDevices_fold leaves_def)
next
  fix m
  assume "cachedData c = Some dc" and "m \<in> set (emitted w (snd (Collect ValidString c w)))"
    and "desc m \<in> set perLeafDescs"
  then have "labelled_by_leaf_of (Devices dc) m" by (rule Collect_labels_aux)
  then show "\<exists>dev\<in>set (Devices dc). \<exists>leaf\<in>set (dev # LinkedModules dev).
      variableLabels (desc m) = [''module'', ''station'']
      \<and> labelValues m =
          [if ModuleName leaf = [] then ''id-'' @ ID leaf else ModuleName leaf, StationName dev]"
    unfolding labelled_by_leaf_of_def leaf_labelled_def varLabels_def moduleName_def by blast
qed

lemmas example_defs =
  example_world_def example_collector_def New_def example_clock_def station_def outdoor_def
  bare_def no_readings_def ascii_def

lemmas example_eval =
  snd_Collect collectData_eq appender_def selfHealth_def leafMetrics_def optional_def
  moduleName_def sint_Sub time_Unix_def minDuration_def maxDuration_def unixToInternal_def
  log_line_def emitted_def

lemma example_scrape:
  "map labelValues (emitted example_world (snd (Collect ascii patient_collector example_world))) =
     [[], [], [], [], [],
      [''Indoor'', ''Home''], [''Indoor'', ''Home''], [''Indoor'', ''Home''],
      [''Indoor'', ''Home''], [''Indoor'', ''Home''],
      [''id-02:00:00:00:00:02'', ''Home''], [''id-02:00:00:00:00:02'', ''Home''],
      [''id-02:00:00:00:00:02'', ''Home''], [''id-02:00:00:00:00:02'', ''Home''],
      [''id-02:00:00:00:00:02'', ''Home''],
      [''Bare'', ''Home''], [''Bare'', ''Home'']]"
  by (simp add: patient_collector_def example_defs example_eval Let_def)

theorem Collect_module_and_station_labels_witness:
  "cachedData patient_collector = Some \<lparr>Devices = [station]\<rparr>
   \<and> \<lparr>desc = tempDesc, valueType = GaugeValue, val = float64_of_num 7.5,
        labelValues = [''id-02:00:00:00:00:02'', ''Home'']\<rparr>
       \<in> set (emitted example_world (snd (Collect ascii patient_collector example_world)))
   \<and> tempDesc \<in> set perLeafDescs
   \<and> outdoor \<in> set (station # LinkedModules station)
   \<and> ModuleName outdoor = [] \<and> ID outdoor = ''02:00:00:00:00:02''
   \<and> StationName station = ''Home''
   \<and> map labelValues (emitted example_world (snd (Collect ascii patient_collector example_world))) =
     [[], [], [], [], [],
      [''Indoor'', ''Home''], [''Indoor'', ''Home''], [''Indoor'', ''Home''],
      [''Indoor'', ''Home''], [''Indoor'', ''Home''],
      [''id-02:00:00:00:00:02'', ''Home''], [''id-02:00:00:00:00:02'', ''Home''],
      [''id-02:00:00:00:00:02'', ''Home''], [''id-02:00:00:00:00:02'', ''Home''],
      [''id-02:00:00:00:00:02'', ''Home''],
      [''Bare'', ''Home''], [''Bare'', ''Home'']]"
proof -
  have m: "\<lparr>desc = tempDesc, valueType = GaugeValue, val = float64_of_num 7.5,
        labelValues = [''id-02:00:00:00:00:02'', ''Home'']\<rparr>
       \<in> set (emitted example_world (snd (Collect ascii patient_collector example_world)))"
    by (simp add: patient_collector_def example_defs example_eval Let_def)
  have facts: "cachedData patient_collector = Some \<lparr>Devices = [station]\<rparr>"
    "tempDesc \<in> set perLeafDescs" "outdoor \<in> set (station # LinkedModules station)"
    "ModuleName outdoor = []" "ID outdoor = ''02:00:00:00:00:02''" "StationName station = ''Home''"
    by (simp_all add: patient_collector_def perLeafDescs_eq station_def outdoor_def)
  from Collect_module_and_station_labels
    [where w = example_world and ValidString = ascii and c = patient_collector
       and leaf = outdoor and stationName = "''Home''" and devs = "[station]"
       and dc = "\<lparr>Devices = [station]\<rparr>"]
  have "\<forall>m\<in>set (emitted example_world (snd (Collect ascii patient_collector example_world))).
      desc m \<in> set perLeafDescs \<longrightarrow>
      (\<exists>dev\<in>set [station]. \<exists>leaf\<in>set (dev # LinkedModules dev).
         variableLabels (desc m) = [''module'', ''station'']
         \<and> labelValues m =
             [if ModuleName leaf = [] then ''id-'' @ ID leaf else ModuleName leaf, StationName dev])"
    using facts(1) by simp
  with m facts example_scrape show ?thesis by simp
qed

lemma station_emitted:
  "emitted example_world (collectData ascii example_collector station ''Home'' example_world) =
     [\<lparr>desc = updatedDesc, valueType = GaugeValue, val = float64_of_int 1700000290,
       labelValues = [''Indoor'', ''Home'']\<rparr>,
      \<lparr>desc = tempDesc, valueType = GaugeValue, val = float64_of_num 21.5,
       labelValues = [''Indoor'', ''Home'']\<rparr>,
      \<lparr>desc = humidityDesc, valueType = GaugeValue, val = float64_of_num 55,
       labelValues = [''Indoor'', ''Home'']\<rparr>,
      \<lparr>desc = wifiDesc, valueType = GaugeValue, val = float64_of_num 56,
       labelValues = [''Indoor'', ''Home'']\<rparr>,
      \<lparr>desc = lastMeasureUtcDesc, valueType = GaugeValue, val = float64_of_int 1700000290,
       labelValues = [''Indoor'', ''Home'']\<rparr>]"
  by (simp add: example_defs example_eval Let_def)

theorem collectData_last_measure_utc_witness:
  "LastMeasure (DashboardData station) = Some 1700000290
   \<and> sint (Sub (clock example_collector (ticks example_world))
        (time_Unix (sint (1700000290 :: 64 word)) 0)) \<le> sint (StaleThreshold example_collector)
   \<and> ascii (moduleName station) \<and> ascii ''Home''
   \<and> last (emitted example_world
        (collectData ascii example_collector station ''Home'' example_world)) =
      \<lparr>desc = lastMeasureUtcDesc, valueType = GaugeValue, val = float64_of_int 1700000290,
        labelValues = [''Indoor'', ''Home'']\<rparr>
   \<and> length (emitted example_world
        (collectData ascii example_collector station ''Home'' example_world)) = 5"
proof -
  have lm: "LastMeasure (DashboardData station) = Some 1700000290"
    by (simp add: station_def no_readings_def)
  have fresh: "sint (Sub (clock example_collector (ticks example_world))
        (time_Unix (sint (1700000290 :: 64 word)) 0)) \<le> sint (StaleThreshold example_collector)"
    by (simp add: example_world_def example_collector_def New_def example_clock_def sint_Sub
        time_Unix_def minDuration_def maxDuration_def)
  have valid: "ascii (moduleName station)" "ascii ''Home''"
    by (simp_all add: ascii_def moduleName_def station_def)
  from collectData_last_measure_utc [OF lm fresh valid]
  show ?thesis using lm fresh valid by (simp add: station_emitted)
qed

end
